theory Spec2Isabelle
  imports Main "HOL-Library.Word" "HOL-Library.Signed_Division" "HOL-Library.AList"
begin

unbundle bit_operations_syntax

section \<open>Scalars, errors and pointers\<close>

text \<open>
  The C++ scalar types of the sources: \<open>int\<close> is a 32-bit two's complement word,
  \<open>int64_t\<close> and \<open>size_t\<close> are 64-bit words. Arithmetic on words wraps around; where the
  C++ standard leaves signed overflow undefined the model wraps, and the theorems say in
  which ranges no overflow happens. A \<open>float\<close> and a \<open>double\<close> are carried as their bit
  patterns; no floating-point arithmetic is interpreted.
\<close>

type_synonym int32 = "32 word"
type_synonym int64 = "64 word"
type_synonym float = "32 word"
type_synonym double = "64 word"

text \<open>Everything that ends the C++ program abnormally is a value of this type.\<close>

datatype error =
    NullDeref        \<comment> \<open>use of a null \<open>shared_ptr\<close> or \<open>unique_ptr\<close>\<close>
  | OutOfRange       \<comment> \<open>\<open>vector::operator[]\<close> or a buffer read/write past the end\<close>
  | DivByZero        \<comment> \<open>integer division by zero, or \<open>INT_MIN / -1\<close>\<close>
  | SegFault         \<comment> \<open>a write into memory mapped read-only\<close>
  | AssertFailed     \<comment> \<open>a failed \<open>assert\<close>\<close>
  | Aborted          \<comment> \<open>\<open>abort()\<close>\<close>

definition bindE :: "error + 'a \<Rightarrow> ('a \<Rightarrow> error + 'b) \<Rightarrow> error + 'b" where
  "bindE m f = (case m of Inl e \<Rightarrow> Inl e | Inr x \<Rightarrow> f x)"

text \<open>\<open>v[i]\<close> on a \<open>std::vector\<close>: reading past the end is undefined behaviour.\<close>

definition at :: "'a list \<Rightarrow> nat \<Rightarrow> error + 'a" where
  "at v i = (if i < length v then Inr (v ! i) else Inl OutOfRange)"

text \<open>The C++ \<open>/\<close> on \<open>int\<close>: truncation towards zero, undefined for a zero divisor
  and for \<open>INT_MIN / -1\<close>.\<close>

definition int_div :: "int32 \<Rightarrow> int32 \<Rightarrow> error + int32" where
  "int_div a b =
     (if b = 0 then Inl DivByZero
      else if sint a = - (2 ^ 31) \<and> sint b = - 1 then Inl DivByZero
      else Inr (word_of_int (sint a sdiv sint b)))"

section \<open>Attributes (saga.h)\<close>

text \<open>\<open>typedef std::variant<float, int, std::vector<int>, bool> Attribute\<close>\<close>

datatype Attribute =
    AFloat float
  | AInt int32
  | AIntVec "int32 list"
  | ABool bool

text \<open>\<open>class Attributes : public std::unordered_map<std::string, Attribute>\<close>\<close>

type_synonym Attributes = "string \<rightharpoonup> Attribute"

text \<open>\<open>std::get_if<T>\<close> at the four alternatives of the variant.\<close>

fun get_if_float :: "Attribute \<Rightarrow> float option" where
  "get_if_float (AFloat f) = Some f"
| "get_if_float _ = None"

fun get_if_int :: "Attribute \<Rightarrow> int32 option" where
  "get_if_int (AInt i) = Some i"
| "get_if_int _ = None"

fun get_if_vec :: "Attribute \<Rightarrow> int32 list option" where
  "get_if_vec (AIntVec v) = Some v"
| "get_if_vec _ = None"

fun get_if_bool :: "Attribute \<Rightarrow> bool option" where
  "get_if_bool (ABool b) = Some b"
| "get_if_bool _ = None"

text \<open>
  \<open>template<typename T> T Attributes::get(const std::string &n, T def) const\<close>, with the
  alternative selector \<open>std::get_if<T>\<close> as an argument; the four instances follow.
\<close>

definition Attributes_get :: "(Attribute \<Rightarrow> 'a option) \<Rightarrow> Attributes \<Rightarrow> string \<Rightarrow> 'a \<Rightarrow> 'a" where
  "Attributes_get get_if B n def =
     (case B n of
        None \<Rightarrow> def
      | Some a \<Rightarrow> (case get_if a of None \<Rightarrow> def | Some p \<Rightarrow> p))"

definition get_float_attr :: "Attributes \<Rightarrow> string \<Rightarrow> float \<Rightarrow> float" where
  "get_float_attr = Attributes_get get_if_float"

definition get_int_attr :: "Attributes \<Rightarrow> string \<Rightarrow> int32 \<Rightarrow> int32" where
  "get_int_attr = Attributes_get get_if_int"

definition get_vec_attr :: "Attributes \<Rightarrow> string \<Rightarrow> int32 list \<Rightarrow> int32 list" where
  "get_vec_attr = Attributes_get get_if_vec"

definition get_bool_attr :: "Attributes \<Rightarrow> string \<Rightarrow> bool \<Rightarrow> bool" where
  "get_bool_attr = Attributes_get get_if_bool"

section \<open>Tensors (saga.h, tensor.cpp)\<close>

datatype DataType = U8 | HALF | FLOAT | INT64 | I32

text \<open>\<open>typedef std::vector<int64_t> Dims\<close>\<close>

type_synonym Dims = "int64 list"

definition DataTypeSize :: "DataType \<Rightarrow> nat" where
  "DataTypeSize dt = (case dt of U8 \<Rightarrow> 1 | HALF \<Rightarrow> 2 | FLOAT \<Rightarrow> 4 | INT64 \<Rightarrow> 8 | I32 \<Rightarrow> 4)"

text \<open>\<open>elements_from_dims\<close>: the product of the dimensions, in \<open>int64_t\<close>.\<close>

definition elements_from_dims :: "Dims \<Rightarrow> int64" where
  "elements_from_dims ds = fold (\<lambda>d e. e * d) ds 1"

text \<open>
  The dynamic class of a \<open>Tensor\<close> object, with the members the subclass adds:
  a plain \<open>Tensor\<close> (whose \<open>access()\<close> is null), a \<open>GenTensor\<close> with \<open>mean_\<close> and
  \<open>stddev_\<close>, and a \<open>CPUTensor\<close> with \<open>strides_\<close>, the address of its shared
  \<open>storage_\<close> and \<open>offset_\<close>.
\<close>

datatype TensorClass =
    PlainTensor
  | GenTensor double double
  | CPUTensor Dims nat int64

text \<open>Member names are those of the C++ classes without their trailing underscore.\<close>

record Tensor =
  name :: "string option"
  data_type :: DataType
  dims :: Dims
  elements :: int64
  cls :: TensorClass

text \<open>The constructor \<open>Tensor::Tensor(data_type, dims, name)\<close> of the base class.\<close>

definition Tensor_ctor :: "DataType \<Rightarrow> Dims \<Rightarrow> string option \<Rightarrow> Tensor" where
  "Tensor_ctor dt sz nm =
     \<lparr>name = nm, data_type = dt, dims = sz,
      elements = elements_from_dims sz, cls = PlainTensor\<rparr>"

text \<open>
  Tensor objects live on a heap and are shared through \<open>std::shared_ptr<Tensor>\<close>: a
  pointer is \<open>None\<close> (null) or the address of an object. The heap only grows:
  \<open>std::make_shared\<close> puts the new object at the next address.
\<close>

type_synonym TensorPtr = "nat option"
type_synonym TensorHeap = "Tensor list"

definition make_shared :: "TensorHeap \<Rightarrow> Tensor \<Rightarrow> TensorPtr \<times> TensorHeap" where
  "make_shared h t = (Some (length h), h @ [t])"

definition deref :: "TensorHeap \<Rightarrow> nat \<Rightarrow> error + Tensor" where
  "deref h a = (if a < length h then Inr (h ! a) else Inl NullDeref)"

text \<open>
  \<open>class Tensors : public std::unordered_map<std::string, std::shared_ptr<Tensor>>\<close>,
  as the list of its entries in iteration order (keys distinct).
\<close>

type_synonym Tensors = "(string \<times> TensorPtr) list"

definition Tensors_get :: "Tensors \<Rightarrow> string \<Rightarrow> TensorPtr" where
  "Tensors_get T n = (case map_of T n of None \<Rightarrow> None | Some p \<Rightarrow> p)"

section \<open>Storage and access (tensor.cpp)\<close>

text \<open>
  A buffer is the list of its elements, each element carried as its bits.
\<close>

type_synonym cell = "64 word"
type_synonym rng = nat

text \<open>
  A tensor file, by the fields that \<open>Tensor::save\<close> writes in order: the \<open>TensorDiskHeader\<close>
  (\<open>magic\<close>, \<open>type\<close>, \<open>rank\<close>), the dimensions as \<open>uint32_t\<close>, and the element data, in
  elements of the type that the header names. A file holds as many dimensions as its rank
  says, or fewer when it ends before the last of them, and then no element data.
\<close>

record DiskFile =
  magic :: string
  disk_type :: "32 word"
  rank :: "32 word"
  ondiskdims :: "32 word list"
  payload :: "cell list"

text \<open>
  What the model does not interpret is collected in one record: the casts between \<open>double\<close>
  and the element types, which are the bodies of \<open>get_float\<close>, \<open>set_float\<close> and their
  siblings, the cast from \<open>double\<close> to \<open>int64_t\<close>, the standard library's random engine and
  normal distribution, whose joint state is a value of type \<open>rng\<close>, the page size of a
  memory mapping, and the element that a run of bytes of a file denotes when it is not one
  of the file's own elements (\<open>bytes_at f o n\<close>: the \<open>n\<close> bytes of \<open>f\<close> from byte \<open>o\<close>, zero
  past the end of the file).
\<close>

record Platform =
  get_float :: "cell \<Rightarrow> double"
  get_half :: "cell \<Rightarrow> double"
  get_u8 :: "cell \<Rightarrow> double"
  get_i64 :: "cell \<Rightarrow> double"
  get_i32 :: "cell \<Rightarrow> double"
  set_float :: "double \<Rightarrow> cell"
  set_half :: "double \<Rightarrow> cell"
  set_u8 :: "double \<Rightarrow> cell"
  set_i64 :: "double \<Rightarrow> cell"
  set_i32 :: "double \<Rightarrow> cell"
  double_to_int64 :: "double \<Rightarrow> int64"
  default_engine :: rng
  normal_distribution :: "double \<Rightarrow> double \<Rightarrow> rng \<Rightarrow> double \<times> rng"
  page_size :: nat
  bytes_at :: "DiskFile \<Rightarrow> nat \<Rightarrow> nat \<Rightarrow> cell"

definition datatype_get :: "Platform \<Rightarrow> DataType \<Rightarrow> cell \<Rightarrow> double" where
  "datatype_get pf dt =
     (case dt of U8 \<Rightarrow> get_u8 pf | HALF \<Rightarrow> get_half pf | FLOAT \<Rightarrow> get_float pf
               | INT64 \<Rightarrow> get_i64 pf | I32 \<Rightarrow> get_i32 pf)"

definition datatype_set :: "Platform \<Rightarrow> DataType \<Rightarrow> double \<Rightarrow> cell" where
  "datatype_set pf dt =
     (case dt of U8 \<Rightarrow> set_u8 pf | HALF \<Rightarrow> set_half pf | FLOAT \<Rightarrow> set_float pf
               | INT64 \<Rightarrow> set_i64 pf | I32 \<Rightarrow> set_i32 pf)"

text \<open>
  \<open>TensorStorage\<close> with the members its constructor initialises (\<open>get_\<close>, \<open>set_\<close>,
  \<open>data_type_\<close>, \<open>element_size_\<close>, \<open>data_\<close>), and \<open>HostTensorStorage::mmaped_\<close> as a flag:
  when it is set, \<open>data_\<close> lies in the file mapping that \<open>Tensor::load\<close> made with
  \<open>PROT_READ\<close>.
\<close>

record TensorStorage =
  get_fn :: "cell \<Rightarrow> double"
  set_fn :: "double \<Rightarrow> cell"
  st_data_type :: DataType
  element_size :: nat
  data :: "cell list"
  mmaped :: bool

type_synonym StorageHeap = "TensorStorage list"

text \<open>
  \<open>HostTensorStorage(data_type, size, strides)\<close>: \<open>calloc\<close> of
  \<open>size[0] * strides[0] * DataTypeSize(data_type)\<close> bytes, taken to succeed.
\<close>

definition HostTensorStorage_ctor ::
  "Platform \<Rightarrow> DataType \<Rightarrow> Dims \<Rightarrow> Dims \<Rightarrow> error + TensorStorage" where
  "HostTensorStorage_ctor pf dt sz strides =
     bindE (at sz 0) (\<lambda>size0.
     bindE (at strides 0) (\<lambda>strides0.
       let buffer_size = size0 * strides0 * of_nat (DataTypeSize dt)
       in Inr \<lparr>get_fn = datatype_get pf dt, set_fn = datatype_set pf dt,
                st_data_type = dt, element_size = DataTypeSize dt,
                data = replicate (unat buffer_size div DataTypeSize dt) 0,
                mmaped = False\<rparr>))"

text \<open>
  \<open>HostTensorStorage(data_type, size, strides, mmaped_memory, buffer_size, data)\<close>: the
  elements are those found at \<open>data\<close> in the mapping.
\<close>

definition HostTensorStorage_mmap :: "Platform \<Rightarrow> DataType \<Rightarrow> cell list \<Rightarrow> TensorStorage" where
  "HostTensorStorage_mmap pf dt elems =
     \<lparr>get_fn = datatype_get pf dt, set_fn = datatype_set pf dt,
      st_data_type = dt, element_size = DataTypeSize dt,
      data = elems, mmaped = True\<rparr>"

text \<open>
  Modelled from the spec: \<open>TensorStorage::get(offset)\<close> and \<open>TensorStorage::set(offset, value)\<close>
  are declared in tensor.h, which is not among the sources. Section 4.1 of the specification
  has \<open>get\<close> and \<open>set\<close> convert between the element at the flat offset and a double; the
  sibling \<open>CudaTensorStorage\<close> does it as \<open>get_(data, offset)\<close> and \<open>set_(data, offset, value)\<close>.
  An offset past the buffer is an error, and so is a write into a read-only mapping.
\<close>

definition TensorStorage_get :: "TensorStorage \<Rightarrow> int64 \<Rightarrow> error + double" where
  "TensorStorage_get s offset =
     (if unat offset < length (data s) then Inr (get_fn s (data s ! unat offset))
      else Inl OutOfRange)"

definition TensorStorage_set :: "TensorStorage \<Rightarrow> int64 \<Rightarrow> double \<Rightarrow> error + TensorStorage" where
  "TensorStorage_set s offset v =
     (if mmaped s then Inl SegFault
      else if unat offset < length (data s)
        then Inr (s\<lparr>data := (data s)[unat offset := set_fn s v]\<rparr>)
      else Inl OutOfRange)"

text \<open>
  The two access classes. \<open>GenTensorAccess\<close> holds \<open>rank_\<close>, the parameters of
  \<open>distribution_\<close> and the state of \<open>generator_\<close>; \<open>CPUTensorAccess\<close> holds \<open>strides_\<close>, the
  address of \<open>storage_\<close> and \<open>offset_\<close>.
\<close>

datatype TensorAccess =
    GenTensorAccess nat double double rng
  | CPUTensorAccess Dims nat int64

text \<open>
  \<open>access()\<close>: null for a plain \<open>Tensor\<close>; a \<open>GenTensorAccess\<close> with a default-constructed
  engine for a \<open>GenTensor\<close>; a \<open>CPUTensorAccess\<close> for a \<open>CPUTensor\<close>.
\<close>

definition access :: "Platform \<Rightarrow> Tensor \<Rightarrow> TensorAccess option" where
  "access pf t =
     (case cls t of
        PlainTensor \<Rightarrow> None
      | GenTensor mean stddev \<Rightarrow>
          Some (GenTensorAccess (length (dims t)) mean stddev (default_engine pf))
      | CPUTensor strides storage offset \<Rightarrow> Some (CPUTensorAccess strides storage offset))"

text \<open>\<open>CPUTensorAccess::offsetForElement\<close>, in \<open>size_t\<close> arithmetic.\<close>

definition offsetForElement :: "Dims \<Rightarrow> int64 \<Rightarrow> Dims \<Rightarrow> int64" where
  "offsetForElement strides offset element =
     fold (\<lambda>(e, s) off. off + e * s) (zip element strides) offset"

text \<open>
  \<open>get\<close>, \<open>set\<close> and \<open>copyBytesFrom\<close> of an access object. \<open>get\<close> returns the access object
  too, since a \<open>GenTensorAccess\<close> advances its generator. \<open>copyBytesFrom\<close> on a
  \<open>CPUTensorAccess\<close> is a \<open>memcpy\<close> of bytes and is given for the generator only, where it
  does nothing.
\<close>

definition TensorAccess_get ::
  "Platform \<Rightarrow> StorageHeap \<Rightarrow> TensorAccess \<Rightarrow> Dims \<Rightarrow> error + (double \<times> TensorAccess)" where
  "TensorAccess_get pf sh ta element =
     (case ta of
        GenTensorAccess rk mean stddev g \<Rightarrow>
          (let (v, g') = normal_distribution pf mean stddev g
           in Inr (v, GenTensorAccess rk mean stddev g'))
      | CPUTensorAccess strides storage offset \<Rightarrow>
          bindE (at sh storage) (\<lambda>s.
          bindE (TensorStorage_get s (offsetForElement strides offset element)) (\<lambda>v.
            Inr (v, ta))))"

definition TensorAccess_set ::
  "StorageHeap \<Rightarrow> TensorAccess \<Rightarrow> Dims \<Rightarrow> double \<Rightarrow> error + StorageHeap" where
  "TensorAccess_set sh ta element v =
     (case ta of
        GenTensorAccess rk mean stddev g \<Rightarrow> Inr sh
      | CPUTensorAccess strides storage offset \<Rightarrow>
          bindE (at sh storage) (\<lambda>s.
          bindE (TensorStorage_set s (offsetForElement strides offset element) v) (\<lambda>s'.
            Inr (sh[storage := s']))))"

definition GenTensorAccess_copyBytesFrom ::
  "StorageHeap \<Rightarrow> TensorAccess \<Rightarrow> Dims \<Rightarrow> 8 word list \<Rightarrow> StorageHeap \<times> TensorAccess" where
  "GenTensorAccess_copyBytesFrom sh ta element bytes = (sh, ta)"

section \<open>CPU tensors (tensor.cpp)\<close>

text \<open>\<open>Tensor::namePostfix\<close>\<close>

definition namePostfix :: "Tensor \<Rightarrow> string \<Rightarrow> string option" where
  "namePostfix t postfix = (case name t of Some n \<Rightarrow> Some (n @ ''.'' @ postfix) | None \<Rightarrow> None)"

text \<open>
  \<open>computeCPUStrides\<close>: the running product is an \<open>int\<close>; each stride is put at the front
  of the result, from the last dimension to the first.
\<close>

fun strides_from_last :: "int32 \<Rightarrow> Dims \<Rightarrow> Dims" where
  "strides_from_last stride [] = []"
| "strides_from_last stride (d # ds) =
     scast stride # strides_from_last (ucast ((scast stride :: int64) * d)) ds"

definition computeCPUStrides :: "Dims \<Rightarrow> Dims" where
  "computeCPUStrides ds = rev (strides_from_last 1 (rev ds))"

text \<open>
  \<open>CPUTensor(data_type, size, name)\<close>, which is also \<open>makeCPUTensor\<close>: packed strides, a new
  zeroed storage at the next address of the storage heap, offset 0.
\<close>

definition makeCPUTensor ::
  "Platform \<Rightarrow> StorageHeap \<Rightarrow> DataType \<Rightarrow> Dims \<Rightarrow> string option \<Rightarrow> error + (Tensor \<times> StorageHeap)" where
  "makeCPUTensor pf sh dt sz nm =
     (let strides = computeCPUStrides sz
      in bindE (HostTensorStorage_ctor pf dt sz strides) (\<lambda>s.
           Inr ((Tensor_ctor dt sz nm)\<lparr>cls := CPUTensor strides (length sh) 0\<rparr>, sh @ [s])))"

text \<open>
  \<open>slice(offset, size)\<close>: null for a plain \<open>Tensor\<close>; a \<open>GenTensor\<close> of the new size for a
  \<open>GenTensor\<close>; for a \<open>CPUTensor\<close> a \<open>CPUTensor\<close> of the new size on the same strides and the
  same storage, whose offset is moved by the offset vector.
\<close>

definition Tensor_slice :: "StorageHeap \<Rightarrow> Tensor \<Rightarrow> Dims \<Rightarrow> Dims \<Rightarrow> error + Tensor option" where
  "Tensor_slice sh t offset sz =
     (case cls t of
        PlainTensor \<Rightarrow> Inr None
      | GenTensor mean stddev \<Rightarrow>
          Inr (Some ((Tensor_ctor (data_type t) sz (name t))\<lparr>cls := GenTensor mean stddev\<rparr>))
      | CPUTensor strides storage offset0 \<Rightarrow>
          (let o' = fold (\<lambda>(x, s) o'. o' + x * s) (zip offset strides) offset0
           in bindE (at sh storage) (\<lambda>s.
                Inr (Some ((Tensor_ctor (st_data_type s) sz (namePostfix t ''slice''))
                             \<lparr>cls := CPUTensor strides storage o'\<rparr>)))))"

text \<open>
  The coordinate step shared by \<open>copyFrom\<close>, \<open>stats\<close> and \<open>sse\<close>: from the last axis to
  the first, increment; on reaching the dimension reset to 0 and carry, else stop. Written
  on the reversed vectors.
\<close>

fun odometer_rev :: "Dims \<Rightarrow> Dims \<Rightarrow> Dims" where
  "odometer_rev (c # cs) (d # ds) = (if c + 1 = d then 0 # odometer_rev cs ds else (c + 1) # cs)"
| "odometer_rev cs ds = cs"

definition odometer :: "Dims \<Rightarrow> Dims \<Rightarrow> Dims" where
  "odometer c ds = rev (odometer_rev (rev c) (rev ds))"

text \<open>
  \<open>Tensor::copyFrom\<close>. A null source access returns at once. Otherwise the destination
  access is taken, the element counts are asserted equal, and the loop runs \<open>elements_\<close>
  times (never, when \<open>elements_\<close> is not positive).
\<close>

fun copy_loop ::
  "Platform \<Rightarrow> nat \<Rightarrow> TensorAccess option \<Rightarrow> Dims \<Rightarrow> Dims \<Rightarrow>
   StorageHeap \<Rightarrow> TensorAccess \<Rightarrow> Dims \<Rightarrow> Dims \<Rightarrow> error + StorageHeap" where
  "copy_loop pf 0 dst dims_d dims_s sh src c_d c_s = Inr sh"
| "copy_loop pf (Suc n) dst dims_d dims_s sh src c_d c_s =
     (case dst of
        None \<Rightarrow> Inl NullDeref
      | Some d \<Rightarrow>
          bindE (TensorAccess_get pf sh src c_s) (\<lambda>(v, src').
          bindE (TensorAccess_set sh d c_d v) (\<lambda>sh'.
            copy_loop pf n dst dims_d dims_s sh' src' (odometer c_d dims_d) (odometer c_s dims_s))))"

definition copyFrom :: "Platform \<Rightarrow> StorageHeap \<Rightarrow> Tensor \<Rightarrow> Tensor \<Rightarrow> error + StorageHeap" where
  "copyFrom pf sh this t =
     (case access pf t of
        None \<Rightarrow> Inr sh
      | Some src \<Rightarrow>
          (let dst = access pf this
           in if elements t \<noteq> elements this then Inl AssertFailed
              else copy_loop pf (nat (sint (elements this))) dst (dims this) (dims t) sh src
                     (replicate (length (dims this)) 0) (replicate (length (dims t)) 0)))"

section \<open>The tensor registry (tensor.cpp)\<close>

text \<open>
  \<open>Tensor::find\<close>. With a name that the registry holds, the registered tensor is returned
  after two assertions on its data type and dimensions; else a new \<open>GenTensor\<close> is made and,
  when named, registered. The assertions are those of a build without \<open>NDEBUG\<close>.
\<close>

definition Tensor_find ::
  "DataType \<Rightarrow> Dims \<Rightarrow> double \<Rightarrow> double \<Rightarrow> Tensors \<Rightarrow> TensorHeap \<Rightarrow> string option \<Rightarrow>
   error + (TensorPtr \<times> Tensors \<times> TensorHeap)" where
  "Tensor_find dt sz init_mean init_stddev named_tensors h nm =
     (let create =
        (let (t, h') = make_shared h ((Tensor_ctor dt sz nm)\<lparr>cls := GenTensor init_mean init_stddev\<rparr>)
         in case nm of
              Some n \<Rightarrow> Inr (t, AList.update n t named_tensors, h')
            | None \<Rightarrow> Inr (t, named_tensors, h'))
      in case nm of
           None \<Rightarrow> create
         | Some n \<Rightarrow>
            (case map_of named_tensors n of
               None \<Rightarrow> create
             | Some t \<Rightarrow>
                (case t of
                   None \<Rightarrow> Inl NullDeref
                 | Some a \<Rightarrow>
                     bindE (deref h a) (\<lambda>obj.
                       if data_type obj \<noteq> dt then Inl AssertFailed
                       else if dims obj \<noteq> sz then Inl AssertFailed
                       else Inr (t, named_tensors, h)))))"

section \<open>Tensor files (tensor.cpp)\<close>

text \<open>
  Sizes in bytes. \<open>sizeof(TensorDiskHeader)\<close> is 16, the struct being packed; a dimension
  takes 4 bytes; an element takes the size of the type that the header names (a file of a
  type that \<open>load\<close> rejects is counted in floats). The failures of \<open>open\<close>, \<open>fstat\<close>, \<open>mmap\<close>
  and \<open>write\<close> on an existing file are not modelled: a \<open>write\<close> writes all its bytes.
\<close>

definition disk_element_size :: "DiskFile \<Rightarrow> nat" where
  "disk_element_size f = (if disk_type f = 1 then DataTypeSize HALF else DataTypeSize FLOAT)"

definition payload_offset :: "DiskFile \<Rightarrow> nat" where
  "payload_offset f = 16 + 4 * length (ondiskdims f)"

definition file_size :: "DiskFile \<Rightarrow> nat" where
  "file_size f = payload_offset f + disk_element_size f * length (payload f)"

text \<open>
  The files by path, and the mappings that \<open>Tensor::load\<close> has made with
  \<open>mmap(NULL, st.st_size, PROT_READ, MAP_SHARED, fd, 0)\<close>, by the address of the storage that
  owns the mapping: the path of the mapped file, the byte offset of \<open>data_\<close> in the mapping
  and the mapped length \<open>st.st_size\<close>. Files are told apart by their paths; two paths that
  name one file are not modelled.
\<close>

record Mapping =
  map_path :: string
  map_offset :: nat
  map_length :: nat

record FileSystem =
  files :: "(string \<times> DiskFile) list"
  mappings :: "(nat \<times> Mapping) list"

text \<open>
  What a shared mapping shows of its file as the file is now. The pages up to the one that
  holds the last byte of the file can be read, and a read past them faults; in the last page
  the bytes past the end of the file read as zero. So of the elements that the mapping had
  when it was made, those that lie in these pages can be read: element \<open>i\<close> is element \<open>i\<close>
  of the file when the mapping and the file agree on where the elements start and how large
  they are, and zero when it lies past the end of the file.
\<close>

definition backed_bytes :: "Platform \<Rightarrow> nat \<Rightarrow> nat" where
  "backed_bytes pf n = ((n + page_size pf - 1) div page_size pf) * page_size pf"

definition mapped_cell :: "Platform \<Rightarrow> DiskFile \<Rightarrow> Mapping \<Rightarrow> nat \<Rightarrow> nat \<Rightarrow> cell" where
  "mapped_cell pf f m es i =
     (if map_offset m = payload_offset f \<and> es = disk_element_size f
      then (if i < length (payload f) then payload f ! i else 0)
      else if file_size f \<le> map_offset m + i * es then 0
      else bytes_at pf f (map_offset m + i * es) es)"

definition mapped_cells :: "Platform \<Rightarrow> DiskFile \<Rightarrow> Mapping \<Rightarrow> nat \<Rightarrow> cell list" where
  "mapped_cells pf f m es =
     map (mapped_cell pf f m es)
       [0 ..< min ((map_length m - map_offset m) div es)
                  ((backed_bytes pf (file_size f) - map_offset m) div es)]"

text \<open>
  The storage heap after the file at \<open>path\<close> has changed: every storage that owns a mapping
  of that file shows the file as it is now; reading such a storage past the elements that
  can be read is the error of \<open>TensorStorage::get\<close>.
\<close>

definition remap :: "Platform \<Rightarrow> FileSystem \<Rightarrow> string \<Rightarrow> StorageHeap \<Rightarrow> StorageHeap" where
  "remap pf fs path sh =
     map (\<lambda>(a, s).
            case map_of (mappings fs) a of
              None \<Rightarrow> s
            | Some m \<Rightarrow>
                (case map_of (files fs) path of
                   None \<Rightarrow> s
                 | Some f \<Rightarrow>
                     if map_path m = path
                     then s\<lparr>data := mapped_cells pf f m (element_size s)\<rparr>
                     else s))
         (zip [0 ..< length sh] sh)"

text \<open>
  \<open>Tensor::load\<close>. The result is null (with the state as it was) when there is no file at
  the path, on a wrong magic, an unsupported type, a rank above 8 or a file that ends before
  the last dimension; else a \<open>CPUTensor\<close> with packed strides over a new storage that is the
  mapped element data, and the mapping is recorded.
\<close>

definition Tensor_load ::
  "Platform \<Rightarrow> FileSystem \<Rightarrow> StorageHeap \<Rightarrow> string \<Rightarrow> string option \<Rightarrow>
   Tensor option \<times> FileSystem \<times> StorageHeap" where
  "Tensor_load pf fs sh path nm =
     (case map_of (files fs) path of
        None \<Rightarrow> (None, fs, sh)
      | Some f \<Rightarrow>
          if magic f \<noteq> ''sagaT001'' then (None, fs, sh)
          else if disk_type f \<noteq> 0 \<and> disk_type f \<noteq> 1 then (None, fs, sh)
          else if 8 < rank f then (None, fs, sh)
          else if length (ondiskdims f) < unat (rank f) then (None, fs, sh)
          else
            (let dt = (if disk_type f = 0 then FLOAT else HALF);
                 ds = map ucast (take (unat (rank f)) (ondiskdims f));
                 strides = computeCPUStrides ds;
                 storage = HostTensorStorage_mmap pf dt (payload f);
                 m = \<lparr>map_path = path, map_offset = 16 + 4 * unat (rank f),
                      map_length = file_size f\<rparr>
             in (Some ((Tensor_ctor dt ds nm)\<lparr>cls := CPUTensor strides (length sh) 0\<rparr>),
                 fs\<lparr>mappings := AList.update (length sh) m (mappings fs)\<rparr>,
                 sh @ [storage])))"

text \<open>
  The comparison of the byte count that \<open>write\<close> returns with the count cast to \<open>int\<close>.
\<close>

definition int_cast_same :: "nat \<Rightarrow> bool" where
  "int_cast_same n = (sint (of_nat n :: int32) = int n)"

text \<open>
  \<open>Tensor::save\<close>, in the order of the code. An unsupported type returns \<open>false\<close> before the
  file is touched. Then \<open>open\<close> with \<open>O_CREAT | O_TRUNC\<close> empties the file at the path, and
  the header and the dimensions are written: from here on the storages that map this file
  show the new file, which has no element data yet. Only then is the packed copy made and
  filled from the tensor by \<open>copyFrom\<close>, and the elements of the copy are written after the
  dimensions. The copy is a local \<open>CPUTensor\<close>, released on return. The result is the value
  returned, the files and the storage heap.
\<close>

definition Tensor_save ::
  "Platform \<Rightarrow> FileSystem \<Rightarrow> StorageHeap \<Rightarrow> Tensor \<Rightarrow> string \<Rightarrow>
   error + (bool \<times> FileSystem \<times> StorageHeap)" where
  "Tensor_save pf fs sh this path =
     (if data_type this \<noteq> FLOAT \<and> data_type this \<noteq> HALF then Inr (False, fs, sh)
      else
        (let tdh_type = (if data_type this = FLOAT then 0 else 1);
             tdh_rank = (of_nat (length (dims this)) :: 32 word);
             dims_on_disk = map ucast (take (unat tdh_rank) (dims this));
             f1 = \<lparr>magic = ''sagaT001'', disk_type = tdh_type, rank = tdh_rank,
                   ondiskdims = dims_on_disk, payload = []\<rparr>;
             fs1 = fs\<lparr>files := AList.update path f1 (files fs)\<rparr>;
             sh1 = remap pf fs1 path sh
         in if \<not> int_cast_same (4 * unat tdh_rank) then Inr (False, fs1, sh1)
            else
              bindE (makeCPUTensor pf sh1 (data_type this) (dims this) None) (\<lambda>(copy, sh2).
              bindE (copyFrom pf sh2 copy this) (\<lambda>sh3.
              bindE (at sh3 (length sh)) (\<lambda>storage.
              bindE (at (computeCPUStrides (dims this)) 0) (\<lambda>strides0.
              bindE (at (dims this) 0) (\<lambda>dims0.
                let sz = strides0 * dims0 * of_nat (DataTypeSize (data_type this));
                    f2 = f1\<lparr>payload := take (unat sz div DataTypeSize (data_type this))
                                           (data storage)\<rparr>;
                    fs2 = fs1\<lparr>files := AList.update path f2 (files fs1)\<rparr>
                in Inr (int_cast_same (unat sz), fs2,
                        remap pf fs2 path (take (length sh) sh3)))))))))"

section \<open>Double-buffered storage (cuda/cuda\_tensor.cpp)\<close>

text \<open>
  \<open>CudaTensorStorage\<close>: \<open>num_buffers_\<close> buffers, allocated and zeroed by the constructor, and
  the \<open>int\<close> \<open>index_\<close>, which the constructor leaves uninitialised and \<open>flip\<close> increments.
\<close>

record CudaTensorStorage =
  cu_get_fn :: "cell \<Rightarrow> double"
  cu_set_fn :: "double \<Rightarrow> cell"
  num_buffers :: int32
  index :: int32
  buffers :: "cell list list"

text \<open>
  The buffer that \<open>data(buffer)\<close> selects, \<open>buffers_[(buffer + index_) & (num_buffers_ - 1)]\<close>,
  and the one that \<open>deviceMem(offset, buffer_index)\<close> selects,
  \<open>buffers_[buffer_index & (num_buffers_ - 1)]\<close>, as positions in \<open>buffers_\<close>.
\<close>

definition data_slot :: "CudaTensorStorage \<Rightarrow> int32 \<Rightarrow> int32" where
  "data_slot s buffer = (buffer + index s) AND (num_buffers s - 1)"

definition deviceMem_slot :: "CudaTensorStorage \<Rightarrow> int32 \<Rightarrow> int32" where
  "deviceMem_slot s buffer_index = buffer_index AND (num_buffers s - 1)"

text \<open>Reading \<open>buffers_[i]\<close>: only the allocated buffers are there.\<close>

definition buffer_at :: "CudaTensorStorage \<Rightarrow> int32 \<Rightarrow> error + cell list" where
  "buffer_at s i =
     (if 0 \<le> sint i \<and> nat (sint i) < length (buffers s) then Inr (buffers s ! nat (sint i))
      else Inl OutOfRange)"

definition cu_data :: "CudaTensorStorage \<Rightarrow> int32 \<Rightarrow> error + cell list" where
  "cu_data s buffer = buffer_at s (data_slot s buffer)"

text \<open>\<open>get(offset, buffer)\<close> and \<open>set(offset, value, buffer)\<close>; \<open>buffer\<close> defaults to 0.\<close>

definition cu_get :: "CudaTensorStorage \<Rightarrow> int64 \<Rightarrow> int32 \<Rightarrow> error + double" where
  "cu_get s offset buffer =
     bindE (cu_data s buffer) (\<lambda>b.
     bindE (at b (unat offset)) (\<lambda>c. Inr (cu_get_fn s c)))"

definition cu_set :: "CudaTensorStorage \<Rightarrow> int64 \<Rightarrow> double \<Rightarrow> int32 \<Rightarrow> error + CudaTensorStorage" where
  "cu_set s offset v buffer =
     bindE (cu_data s buffer) (\<lambda>b.
       if unat offset < length b
       then Inr (s\<lparr>buffers := (buffers s)[nat (sint (data_slot s buffer)) := b[unat offset := cu_set_fn s v]]\<rparr>)
       else Inl OutOfRange)"

definition flip :: "CudaTensorStorage \<Rightarrow> CudaTensorStorage" where
  "flip s = s\<lparr>index := index s + 1\<rparr>"

text \<open>
  A \<open>CudaTensor\<close> by the members that its access views and \<open>flip\<close> use: the strides of
  its descriptor \<open>desc_\<close>, \<open>offset_\<close> and the address of \<open>storage_\<close> in a heap of storages.
\<close>

record CudaTensor =
  ct_strides :: Dims
  ct_offset :: int64
  ct_storage :: nat

type_synonym CudaHeap = "CudaTensorStorage list"

text \<open>\<open>CudaTensor::flip\<close>: flips the storage and returns \<open>index_ & 1\<close>.\<close>

definition CudaTensor_flip :: "CudaHeap \<Rightarrow> CudaTensor \<Rightarrow> error + (int32 \<times> CudaHeap)" where
  "CudaTensor_flip h t =
     bindE (at h (ct_storage t)) (\<lambda>s.
       let s' = flip s
       in Inr (index s' AND 1, h[ct_storage t := s']))"

text \<open>
  \<open>CudaTensorAccess\<close>, made by \<open>CudaTensor::access()\<close>: it holds \<open>strides_\<close>, read from the
  descriptor, the pointer \<open>storage_\<close> and \<open>offset_\<close>. Its \<open>data()\<close> is \<open>storage_->data(0)\<close>,
  and its \<open>get\<close> and \<open>set\<close> go to the storage with the default buffer 0. The lock on the
  context and the synchronisation of the stream are not modelled.
\<close>

datatype CudaTensorAccess = CudaTensorAccess Dims nat int64

definition CudaTensor_access :: "CudaTensor \<Rightarrow> CudaTensorAccess" where
  "CudaTensor_access t = CudaTensorAccess (ct_strides t) (ct_storage t) (ct_offset t)"

definition CudaTensorAccess_data :: "CudaHeap \<Rightarrow> CudaTensorAccess \<Rightarrow> error + cell list" where
  "CudaTensorAccess_data h ta =
     (case ta of CudaTensorAccess strides storage offset \<Rightarrow>
        bindE (at h storage) (\<lambda>s. cu_data s 0))"

definition CudaTensorAccess_get :: "CudaHeap \<Rightarrow> CudaTensorAccess \<Rightarrow> Dims \<Rightarrow> error + double" where
  "CudaTensorAccess_get h ta element =
     (case ta of CudaTensorAccess strides storage offset \<Rightarrow>
        bindE (at h storage) (\<lambda>s. cu_get s (offsetForElement strides offset element) 0))"

definition CudaTensorAccess_set ::
  "CudaHeap \<Rightarrow> CudaTensorAccess \<Rightarrow> Dims \<Rightarrow> double \<Rightarrow> error + CudaHeap" where
  "CudaTensorAccess_set h ta element v =
     (case ta of CudaTensorAccess strides storage offset \<Rightarrow>
        bindE (at h storage) (\<lambda>s.
        bindE (cu_set s (offsetForElement strides offset element) v 0) (\<lambda>s'.
          Inr (h[storage := s']))))"

section \<open>Nodes and output-shape inference (node.cpp)\<close>

text \<open>The node types of the \<open>switch\<close> in \<open>Node::makeOutputTensor\<close>; \<open>SUM_NODE\<close> is \<open>Type::SUM\<close>.\<close>

datatype NodeType =
  CONV | FC | MAXPOOL | AVGPOOL | RESHAPE | BATCHNORM | SOFTMAX | RELU | DROPOUT | SUM_NODE | OTHER

record Node =
  node_type :: NodeType
  inputs :: Tensors
  attributes :: Attributes
  outputs :: Tensors

text \<open>
  \<open>makeConvOutputTensor\<close>. The attributes and the dimensions are narrowed to \<open>int\<close>; the
  two divisions are the truncating \<open>/\<close> of C++; the new tensor's first dimension is the
  literal \<open>1\<close>.
\<close>

definition makeConvOutputTensor ::
  "TensorHeap \<Rightarrow> string \<Rightarrow> Node \<Rightarrow> error + (TensorPtr \<times> TensorHeap)" where
  "makeConvOutputTensor h nm n =
     (let stride = get_int_attr (attributes n) ''stride'' 1;
          pad = get_int_attr (attributes n) ''pad'' 1;
          dilation = get_int_attr (attributes n) ''dilation'' 1
      in case Tensors_get (inputs n) ''w'' of
           None \<Rightarrow> Inr (None, h)
         | Some wa \<Rightarrow>
        (case Tensors_get (inputs n) ''x'' of
           None \<Rightarrow> Inr (None, h)
         | Some xa \<Rightarrow>
           bindE (deref h wa) (\<lambda>w.
           bindE (deref h xa) (\<lambda>x.
           bindE (at (dims w) 0) (\<lambda>w0.
           bindE (at (dims w) 2) (\<lambda>w2.
           bindE (at (dims w) 3) (\<lambda>w3.
           bindE (at (dims x) 2) (\<lambda>x2.
           bindE (at (dims x) 3) (\<lambda>x3.
             let features = (ucast w0 :: int32);
                 filterdim_h = (ucast w2 :: int32);
                 filterdim_w = (ucast w3 :: int32);
                 inputdim_h = (ucast x2 :: int32);
                 inputdim_w = (ucast x3 :: int32)
             in
           bindE (int_div (inputdim_w + 2 * pad - (((filterdim_w - 1) * dilation) + 1)) stride) (\<lambda>qw.
           bindE (int_div (inputdim_h + 2 * pad - (((filterdim_h - 1) * dilation) + 1)) stride) (\<lambda>qh.
             let outputdim_w = 1 + qw;
                 outputdim_h = 1 + qh
             in Inr (make_shared h
                  (Tensor_ctor (data_type x)
                     [1, scast features, scast outputdim_h, scast outputdim_w]
                     (Some nm))))))))))))))"

text \<open>\<open>makePoolingOutputTensor\<close>\<close>

definition makePoolingOutputTensor ::
  "TensorHeap \<Rightarrow> string \<Rightarrow> Node \<Rightarrow> error + (TensorPtr \<times> TensorHeap)" where
  "makePoolingOutputTensor h nm n =
     (let sz = get_int_attr (attributes n) ''size'' 1;
          pad = get_int_attr (attributes n) ''pad'' 1;
          stride = get_int_attr (attributes n) ''stride'' 1
      in case Tensors_get (inputs n) ''x'' of
           None \<Rightarrow> Inr (None, h)
         | Some xa \<Rightarrow>
           bindE (deref h xa) (\<lambda>x.
           bindE (at (dims x) 1) (\<lambda>x1.
           bindE (at (dims x) 2) (\<lambda>x2.
           bindE (at (dims x) 3) (\<lambda>x3.
             let channels = (ucast x1 :: int32);
                 inputdim_h = (ucast x2 :: int32);
                 inputdim_w = (ucast x3 :: int32)
             in
           bindE (int_div (inputdim_h + 2 * pad - sz) stride) (\<lambda>qh.
           bindE (int_div (inputdim_w + 2 * pad - sz) stride) (\<lambda>qw.
             let outputdim_h = 1 + qh;
                 outputdim_w = 1 + qw
             in Inr (make_shared h
                  (Tensor_ctor (data_type x)
                     [1, scast channels, scast outputdim_h, scast outputdim_w]
                     (Some nm))))))))))"

text \<open>\<open>makeFCOutputTensor\<close>\<close>

definition makeFCOutputTensor ::
  "TensorHeap \<Rightarrow> string \<Rightarrow> Node \<Rightarrow> error + (TensorPtr \<times> TensorHeap)" where
  "makeFCOutputTensor h nm n =
     (case Tensors_get (inputs n) ''w'' of
        None \<Rightarrow> Inr (None, h)
      | Some wa \<Rightarrow>
          bindE (deref h wa) (\<lambda>w.
          bindE (at (dims w) 0) (\<lambda>w0.
            Inr (make_shared h (Tensor_ctor (data_type w) [1, w0] (Some nm))))))"

text \<open>\<open>makeOutputTensorFromBlueprint\<close>\<close>

definition makeOutputTensorFromBlueprint ::
  "TensorHeap \<Rightarrow> string \<Rightarrow> string \<Rightarrow> Node \<Rightarrow> error + (TensorPtr \<times> TensorHeap)" where
  "makeOutputTensorFromBlueprint h nm blueprint n =
     (case Tensors_get (inputs n) blueprint of
        None \<Rightarrow> Inr (None, h)
      | Some oa \<Rightarrow>
          bindE (deref h oa) (\<lambda>b.
            Inr (make_shared h (Tensor_ctor (data_type b) (dims b) (Some nm)))))"

text \<open>
  \<open>makeReshapeOutputTensor\<close>. Both inputs must be present and the shape tensor must have
  one dimension, else the result is null. The loop reads \<open>shape->dims_[0]\<close> elements through
  the access view of the shape tensor, which is not tested for null, and casts each to
  \<open>int64_t\<close>.
\<close>

fun reshape_loop ::
  "Platform \<Rightarrow> StorageHeap \<Rightarrow> nat \<Rightarrow> int64 \<Rightarrow> TensorAccess option \<Rightarrow> Dims \<Rightarrow> error + Dims" where
  "reshape_loop pf sh 0 i ta ds = Inr ds"
| "reshape_loop pf sh (Suc k) i ta ds =
     (case ta of
        None \<Rightarrow> Inl NullDeref
      | Some a \<Rightarrow>
          bindE (TensorAccess_get pf sh a [i]) (\<lambda>(v, a').
            reshape_loop pf sh k (i + 1) (Some a') (ds @ [double_to_int64 pf v])))"

definition makeReshapeOutputTensor ::
  "Platform \<Rightarrow> TensorHeap \<Rightarrow> StorageHeap \<Rightarrow> string \<Rightarrow> Node \<Rightarrow> error + (TensorPtr \<times> TensorHeap)" where
  "makeReshapeOutputTensor pf h sh nm n =
     (case Tensors_get (inputs n) ''x'' of
        None \<Rightarrow> Inr (None, h)
      | Some xa \<Rightarrow>
     (case Tensors_get (inputs n) ''shape'' of
        None \<Rightarrow> Inr (None, h)
      | Some sa \<Rightarrow>
          bindE (deref h sa) (\<lambda>shape.
            if length (dims shape) \<noteq> 1 then Inr (None, h)
            else
              let ta = access pf shape
              in bindE (at (dims shape) 0) (\<lambda>n0.
                 bindE (reshape_loop pf sh (nat (sint n0)) 0 ta []) (\<lambda>ds.
                 bindE (deref h xa) (\<lambda>x.
                   Inr (make_shared h (Tensor_ctor (data_type x) ds (Some nm)))))))))"

text \<open>
  \<open>Node::makeOutputTensor\<close>: the rule of the node type; a null result aborts; else the
  tensor becomes the output \<open>y\<close> of the node.
\<close>

definition makeOutputTensor ::
  "Platform \<Rightarrow> TensorHeap \<Rightarrow> StorageHeap \<Rightarrow> string \<Rightarrow> Node \<Rightarrow>
   error + (TensorPtr \<times> Node \<times> TensorHeap)" where
  "makeOutputTensor pf h sh nm n =
     bindE (case node_type n of
              CONV \<Rightarrow> makeConvOutputTensor h nm n
            | FC \<Rightarrow> makeFCOutputTensor h nm n
            | MAXPOOL \<Rightarrow> makePoolingOutputTensor h nm n
            | AVGPOOL \<Rightarrow> makePoolingOutputTensor h nm n
            | RESHAPE \<Rightarrow> makeReshapeOutputTensor pf h sh nm n
            | BATCHNORM \<Rightarrow> makeOutputTensorFromBlueprint h nm ''x'' n
            | SOFTMAX \<Rightarrow> makeOutputTensorFromBlueprint h nm ''x'' n
            | RELU \<Rightarrow> makeOutputTensorFromBlueprint h nm ''x'' n
            | DROPOUT \<Rightarrow> makeOutputTensorFromBlueprint h nm ''x'' n
            | SUM_NODE \<Rightarrow> makeOutputTensorFromBlueprint h nm ''x0'' n
            | OTHER \<Rightarrow> Inr (None, h))
       (\<lambda>(y, h').
          case y of
            None \<Rightarrow> Inl Aborted
          | Some a \<Rightarrow> Inr (y, n\<lparr>outputs := AList.update ''y'' y (outputs n)\<rparr>, h'))"

text \<open>
  A concrete convolution node: input \<open>x\<close> of shape \<open>[n, 3, 28, 28]\<close> at address 0, filter
  \<open>w\<close> of shape \<open>[8, 3, 5, 5]\<close> at address 1, stride 1, pad 0.
\<close>

definition conv_example_heap :: "int64 \<Rightarrow> TensorHeap" where
  "conv_example_heap n =
     [Tensor_ctor FLOAT [n, 3, 28, 28] (Some ''x''), Tensor_ctor FLOAT [8, 3, 5, 5] (Some ''w'')]"

definition conv_example_node :: Node where
  "conv_example_node =
     \<lparr>node_type = CONV,
      inputs = [(''x'', Some 0), (''w'', Some 1)],
      attributes = [''stride'' \<mapsto> AInt 1, ''pad'' \<mapsto> AInt 0],
      outputs = []\<rparr>"

text \<open>The same node over an input of shape \<open>[1, 3, 40000, 40000]\<close>.\<close>

definition conv_wide_heap :: TensorHeap where
  "conv_wide_heap =
     [Tensor_ctor FLOAT [1, 3, 40000, 40000] (Some ''x''), Tensor_ctor FLOAT [8, 3, 5, 5] (Some ''w'')]"

text \<open>A concrete attribute bag.\<close>

definition attrs_example :: Attributes where
  "attrs_example = [''stride'' \<mapsto> AInt 2, ''alpha'' \<mapsto> AFloat 7, ''bias'' \<mapsto> ABool True,
                    ''shape'' \<mapsto> AIntVec [1, 2]]"

section \<open>Graphs (graph.cpp)\<close>

record Graph =
  nodes :: "Node list"
  tensors :: Tensors

text \<open>
  \<open>Graph::inputTensors\<close>: a \<open>std::unordered_set\<close> of tensor pointers, filled with every
  input of every node, from which every output of every node is then erased.
\<close>

definition inputTensors :: "Graph \<Rightarrow> TensorPtr set" where
  "inputTensors g =
     (let ins = fold (\<lambda>n s. fold (\<lambda>t s. insert (snd t) s) (inputs n) s) (nodes g) {}
      in fold (\<lambda>n s. fold (\<lambda>t s. s - {snd t}) (outputs n) s) (nodes g) ins)"

text \<open>\<open>Graph::outputTensors\<close>, the same with inputs and outputs exchanged.\<close>

definition outputTensors :: "Graph \<Rightarrow> TensorPtr set" where
  "outputTensors g =
     (let outs = fold (\<lambda>n s. fold (\<lambda>t s. insert (snd t) s) (outputs n) s) (nodes g) {}
      in fold (\<lambda>n s. fold (\<lambda>t s. s - {snd t}) (inputs n) s) (nodes g) outs)"

text \<open>A chain of two nodes: \<open>A\<close> maps tensor 0 to tensor 1, \<open>B\<close> maps tensor 1 to tensor 2.\<close>

definition chain_A :: Node where
  "chain_A = \<lparr>node_type = RELU, inputs = [(''x'', Some 0)], attributes = Map.empty,
               outputs = [(''y'', Some 1)]\<rparr>"

definition chain_B :: Node where
  "chain_B = \<lparr>node_type = RELU, inputs = [(''x'', Some 1)], attributes = Map.empty,
               outputs = [(''y'', Some 2)]\<rparr>"

definition chain_example :: Graph where
  "chain_example = \<lparr>nodes = [chain_A, chain_B], tensors = []\<rparr>"

section \<open>Notions of the specification and concrete inputs\<close>

text \<open>
  Reading and writing one element of a tensor through a fresh access view:
  \<open>t.access()->get(element)\<close> and \<open>t.access()->set(element, value)\<close>.
\<close>

definition Tensor_get :: "Platform \<Rightarrow> StorageHeap \<Rightarrow> Tensor \<Rightarrow> Dims \<Rightarrow> error + double" where
  "Tensor_get pf sh t element =
     (case access pf t of
        None \<Rightarrow> Inl NullDeref
      | Some ta \<Rightarrow> bindE (TensorAccess_get pf sh ta element) (\<lambda>(v, ta'). Inr v))"

definition Tensor_set :: "Platform \<Rightarrow> StorageHeap \<Rightarrow> Tensor \<Rightarrow> Dims \<Rightarrow> double \<Rightarrow> error + StorageHeap" where
  "Tensor_set pf sh t element v =
     (case access pf t of
        None \<Rightarrow> Inl NullDeref
      | Some ta \<Rightarrow> TensorAccess_set sh ta element v)"

text \<open>
  The offset-adjusted coordinate: the coordinate of a slice moved by the offset vector of the
  slice, component by component; where one vector is shorter the other's components stay.
\<close>

fun add_coord :: "Dims \<Rightarrow> Dims \<Rightarrow> Dims" where
  "add_coord (c # cs) (x # xs) = (c + x) # add_coord cs xs"
| "add_coord cs [] = cs"
| "add_coord [] xs = xs"

text \<open>
  The range of \<open>int\<close>. No step of the spatial formula of \<open>makeConvOutputTensor\<close> overflows
  when the input dimension \<open>i\<close> and the kernel dimension \<open>k\<close> fit in an \<open>int\<close> and each
  intermediate result, in the order the code computes them, is in that range.
\<close>

definition int_range :: "int \<Rightarrow> bool" where
  "int_range k = (- (2 ^ 31) \<le> k \<and> k < 2 ^ 31)"

definition conv_no_overflow :: "int \<Rightarrow> int \<Rightarrow> int \<Rightarrow> int \<Rightarrow> int \<Rightarrow> bool" where
  "conv_no_overflow i k pad dilation stride =
     (int_range i \<and> int_range k \<and> int_range (2 * pad) \<and> int_range (i + 2 * pad)
      \<and> int_range (k - 1) \<and> int_range ((k - 1) * dilation)
      \<and> int_range ((k - 1) * dilation + 1)
      \<and> int_range (i + 2 * pad - ((k - 1) * dilation + 1))
      \<and> int_range ((i + 2 * pad - ((k - 1) * dilation + 1)) sdiv stride)
      \<and> int_range (1 + (i + 2 * pad - ((k - 1) * dilation + 1)) sdiv stride))"

text \<open>A platform whose casts keep the bits and whose generator counts, with pages of 4096 bytes.\<close>

definition test_platform :: Platform where
  "test_platform =
     \<lparr>get_float = (\<lambda>c. c), get_half = (\<lambda>c. c), get_u8 = (\<lambda>c. c), get_i64 = (\<lambda>c. c),
      get_i32 = (\<lambda>c. c), set_float = (\<lambda>v. v), set_half = (\<lambda>v. v), set_u8 = (\<lambda>v. v),
      set_i64 = (\<lambda>v. v), set_i32 = (\<lambda>v. v), double_to_int64 = (\<lambda>v. v),
      default_engine = 0, normal_distribution = (\<lambda>mean stddev g. (of_nat g, Suc g)),
      page_size = 4096, bytes_at = (\<lambda>f ofs n. 0)\<rparr>"

text \<open>
  A storage of six elements at address 0, a \<open>CPUTensor\<close> of shape \<open>[2, 3]\<close> over it, a plain
  tensor of shape \<open>[4]\<close> and a generator tensor of shape \<open>[2]\<close>.
\<close>

definition test_storage :: TensorStorage where
  "test_storage =
     \<lparr>get_fn = datatype_get test_platform FLOAT, set_fn = datatype_set test_platform FLOAT,
      st_data_type = FLOAT, element_size = 4, data = [10, 11, 12, 13, 14, 15], mmaped = False\<rparr>"

definition test_cpu_tensor :: Tensor where
  "test_cpu_tensor = (Tensor_ctor FLOAT [2, 3] (Some ''t''))\<lparr>cls := CPUTensor [3, 1] 0 0\<rparr>"

definition test_plain_tensor :: Tensor where
  "test_plain_tensor = Tensor_ctor FLOAT [4] None"

definition test_gen_tensor :: Tensor where
  "test_gen_tensor = (Tensor_ctor FLOAT [2] (Some ''g''))\<lparr>cls := GenTensor 0 1\<rparr>"

text \<open>
  A double-buffered storage of two elements per buffer, with an arbitrary \<open>index_\<close>, and a
  tensor of shape \<open>[2]\<close> on it, the storage being at address 0.
\<close>

definition test_cuda_storage :: CudaTensorStorage where
  "test_cuda_storage =
     \<lparr>cu_get_fn = datatype_get test_platform FLOAT, cu_set_fn = datatype_set test_platform FLOAT,
      num_buffers = 2, index = 7, buffers = [[1, 2], [3, 4]]\<rparr>"

definition test_cuda_tensor :: CudaTensor where
  "test_cuda_tensor = \<lparr>ct_strides = [1], ct_offset = 0, ct_storage = 0\<rparr>"

text \<open>
  A tensor file of shape \<open>[2]\<close> with two elements at the path \<open>t\<close>, the tensor and the
  storage that \<open>Tensor::load\<close> makes of it on an empty storage heap, the files and mappings
  after that, and the slice of that tensor at offset \<open>[0]\<close> with size \<open>[2]\<close>.
\<close>

definition test_file :: DiskFile where
  "test_file = \<lparr>magic = ''sagaT001'', disk_type = 0, rank = 1, ondiskdims = [2], payload = [5, 6]\<rparr>"

definition test_fs :: FileSystem where
  "test_fs = \<lparr>files = [(''t'', test_file)], mappings = []\<rparr>"

definition loaded_fs :: FileSystem where
  "loaded_fs =
     \<lparr>files = [(''t'', test_file)],
      mappings = [(0, \<lparr>map_path = ''t'', map_offset = 20, map_length = 28\<rparr>)]\<rparr>"

definition loaded_storage :: TensorStorage where
  "loaded_storage = HostTensorStorage_mmap test_platform FLOAT [5, 6]"

definition loaded_tensor :: Tensor where
  "loaded_tensor = (Tensor_ctor FLOAT [2] None)\<lparr>cls := CPUTensor [1] 0 0\<rparr>"

definition loaded_slice :: Tensor where
  "loaded_slice = (Tensor_ctor FLOAT [2] None)\<lparr>cls := CPUTensor [1] 0 0\<rparr>"

text \<open>The successive samples that a generator access draws, \<open>k\<close> of them from state \<open>g\<close>.\<close>

fun draws :: "Platform \<Rightarrow> double \<Rightarrow> double \<Rightarrow> rng \<Rightarrow> nat \<Rightarrow> double list" where
  "draws pf mean stddev g 0 = []"
| "draws pf mean stddev g (Suc k) =
     fst (normal_distribution pf mean stddev g)
       # draws pf mean stddev (snd (normal_distribution pf mean stddev g)) k"

text \<open>
  Reshape nodes over a tensor heap with an input of shape \<open>[2, 3]\<close> at address 0 and a
  one-dimensional shape tensor at address 1: one whose shape tensor reads \<open>[4, 5]\<close> from a
  storage, one whose shape tensor is a plain tensor without data.
\<close>

definition reshape_node :: Node where
  "reshape_node =
     \<lparr>node_type = RESHAPE, inputs = [(''x'', Some 0), (''shape'', Some 1)],
      attributes = Map.empty, outputs = []\<rparr>"

definition shape_storage :: TensorStorage where
  "shape_storage =
     \<lparr>get_fn = datatype_get test_platform INT64, set_fn = datatype_set test_platform INT64,
      st_data_type = INT64, element_size = 8, data = [4, 5], mmaped = False\<rparr>"

definition reshape_heap_cpu :: TensorHeap where
  "reshape_heap_cpu =
     [Tensor_ctor FLOAT [2, 3] (Some ''x''),
      (Tensor_ctor INT64 [2] (Some ''shape''))\<lparr>cls := CPUTensor [1] 0 0\<rparr>]"

definition reshape_heap_plain :: TensorHeap where
  "reshape_heap_plain =
     [Tensor_ctor FLOAT [2, 3] (Some ''x''), Tensor_ctor INT64 [2] (Some ''shape'')]"

text \<open>
  A coordinate is in bounds of a dimension vector when it has as many components and each
  is below its dimension. Its position in element order is its row-major index, written
  here on the reversed vectors, last axis first.
\<close>

definition in_bounds :: "Dims \<Rightarrow> Dims \<Rightarrow> bool" where
  "in_bounds c ds = list_all2 (\<lambda>x d. unat x < unat d) c ds"

fun index_rev :: "Dims \<Rightarrow> Dims \<Rightarrow> nat" where
  "index_rev (c # cs) (d # ds) = unat c + unat d * index_rev cs ds"
| "index_rev cs ds = 0"

definition index_of :: "Dims \<Rightarrow> Dims \<Rightarrow> nat" where
  "index_of c ds = index_rev (rev c) (rev ds)"

text \<open>The number of elements of a dimension vector, as a natural number.\<close>

definition count :: "Dims \<Rightarrow> nat" where
  "count ds = prod_list (map unat ds)"










section \<open>Verified properties\<close>

subsection \<open>Helper facts\<close>

lemma bindE_Inr [simp]: "bindE (Inr x) f = f x"
  by (simp add: bindE_def)

lemma bindE_Inl [simp]: "bindE (Inl e) f = Inl e"
  by (simp add: bindE_def)

lemma sint_int32_of_int:
  "- (2 ^ 31) \<le> k \<Longrightarrow> k < 2 ^ 31 \<Longrightarrow> sint (word_of_int k :: int32) = k"
  by (simp add: sint_sbintrunc' signed_take_bit_int_eq_self)

lemma narrow_int64: "(ucast (x :: int64) :: int32) = word_of_int (sint x)"
  by (rule bit_word_eqI) (auto simp add: bit_simps)

lemma widen_int32: "sint (scast (x :: int32) :: int64) = sint x"
  by (simp add: sint_up_scast is_up)

lemma sdiv_nonneg: "0 \<le> (a::int) \<Longrightarrow> 0 < b \<Longrightarrow> a sdiv b = a div b"
  by (simp add: signed_divide_int_def sgn_if)

text \<open>
  The numerator of the spatial formula, computed in \<open>int\<close>, is the integer it denotes when
  that integer is in the range of \<open>int\<close>.
\<close>

lemma conv_numerator:
  fixes i k :: int64 and pad dilation :: int32
  assumes "int_range (sint i + 2 * sint pad - ((sint k - 1) * sint dilation + 1))"
  shows "sint ((ucast i :: int32) + 2 * pad - ((((ucast k :: int32) - 1) * dilation) + 1))
           = sint i + 2 * sint pad - ((sint k - 1) * sint dilation + 1)"
proof -
  let ?N = "sint i + 2 * sint pad - ((sint k - 1) * sint dilation + 1)"
  have eq: "(ucast i :: int32) + 2 * pad - ((((ucast k :: int32) - 1) * dilation) + 1)
          = word_of_int ?N"
    by (simp add: narrow_int64)
  show ?thesis
    unfolding eq by (rule sint_int32_of_int) (use assms in \<open>simp_all add: int_range_def\<close>)
qed

lemma int_div_ok:
  assumes "b \<noteq> 0" "int_range (1 + sint a sdiv sint b)"
  shows "\<exists>q. int_div a b = Inr q \<and> sint (scast (1 + q) :: int64) = 1 + sint a sdiv sint b"
proof -
  have "1 + (word_of_int (sint a sdiv sint b) :: int32) = word_of_int (1 + sint a sdiv sint b)"
    by simp
  moreover have "sint (word_of_int (1 + sint a sdiv sint b) :: int32) = 1 + sint a sdiv sint b"
    using assms(2) by (intro sint_int32_of_int) (simp_all add: int_range_def)
  ultimately have "sint (1 + (word_of_int (sint a sdiv sint b) :: int32)) = 1 + sint a sdiv sint b"
    by simp
  moreover have "int_div a b = Inr (word_of_int (sint a sdiv sint b))"
    using assms by (auto simp: int_div_def int_range_def)
  ultimately show ?thesis by (simp add: widen_int32)
qed

lemma conv_dim:
  fixes i k :: int64 and pad dilation stride :: int32
  assumes "stride \<noteq> 0"
      and "conv_no_overflow (sint i) (sint k) (sint pad) (sint dilation) (sint stride)"
      and "N = sint i + 2 * sint pad - ((sint k - 1) * sint dilation + 1)"
  shows "\<exists>q. int_div ((ucast i :: int32) + 2 * pad - ((((ucast k :: int32) - 1) * dilation) + 1)) stride
                = Inr q
             \<and> sint (scast (1 + q) :: int64) = 1 + N sdiv sint stride"
proof -
  have r: "int_range N" "int_range (1 + N sdiv sint stride)"
    using assms(2,3) by (simp_all add: conv_no_overflow_def)
  have "sint ((ucast i :: int32) + 2 * pad - ((((ucast k :: int32) - 1) * dilation) + 1)) = N"
    using conv_numerator [of i pad k dilation] r(1) assms(3) by simp
  with int_div_ok [OF assms(1), of "(ucast i :: int32) + 2 * pad - ((((ucast k :: int32) - 1) * dilation) + 1)"] r(2)
  show ?thesis by simp
qed

subsection \<open>Attribute lookup\<close>

lemma Attributes_get_cases:
  "Attributes_get sel B K V = (case B K of None \<Rightarrow> V | Some a \<Rightarrow> (case sel a of None \<Rightarrow> V | Some v \<Rightarrow> v))"
  by (simp add: Attributes_get_def)

lemma get_if_float_None: "get_if_float a = None \<longleftrightarrow> (\<forall>x. a \<noteq> AFloat x)"
  by (cases a) simp_all

lemma get_if_int_None: "get_if_int a = None \<longleftrightarrow> (\<forall>x. a \<noteq> AInt x)"
  by (cases a) simp_all

lemma get_if_vec_None: "get_if_vec a = None \<longleftrightarrow> (\<forall>x. a \<noteq> AIntVec x)"
  by (cases a) simp_all

lemma get_if_bool_None: "get_if_bool a = None \<longleftrightarrow> (\<forall>x. a \<noteq> ABool x)"
  by (cases a) simp_all

text \<open>
  C6. For every attribute bag \<open>B\<close>, key \<open>K\<close> and default \<open>V\<close> of the requested type,
  \<open>B.get(K, V)\<close> returns the stored value when \<open>K\<close> is present with a value of the
  requested alternative, and returns exactly \<open>V\<close> when \<open>K\<close> is absent and when \<open>K\<close> is
  present with a value of another alternative: no error and no conversion, at each of the four
  alternatives of the variant. The lookup is a function of the bag and returns only the value,
  so the bag is the same afterwards.
\<close>

theorem attributes_get_default:
  "(B K = Some (AFloat x) \<longrightarrow> get_float_attr B K Vf = x)
   \<and> (B K = None \<longrightarrow> get_float_attr B K Vf = Vf)
   \<and> (\<forall>a. B K = Some a \<and> (\<forall>x. a \<noteq> AFloat x) \<longrightarrow> get_float_attr B K Vf = Vf)
   \<and> (B K = Some (AInt i) \<longrightarrow> get_int_attr B K Vi = i)
   \<and> (B K = None \<longrightarrow> get_int_attr B K Vi = Vi)
   \<and> (\<forall>a. B K = Some a \<and> (\<forall>i. a \<noteq> AInt i) \<longrightarrow> get_int_attr B K Vi = Vi)
   \<and> (B K = Some (AIntVec v) \<longrightarrow> get_vec_attr B K Vv = v)
   \<and> (B K = None \<longrightarrow> get_vec_attr B K Vv = Vv)
   \<and> (\<forall>a. B K = Some a \<and> (\<forall>v. a \<noteq> AIntVec v) \<longrightarrow> get_vec_attr B K Vv = Vv)
   \<and> (B K = Some (ABool b) \<longrightarrow> get_bool_attr B K Vb = b)
   \<and> (B K = None \<longrightarrow> get_bool_attr B K Vb = Vb)
   \<and> (\<forall>a. B K = Some a \<and> (\<forall>b. a \<noteq> ABool b) \<longrightarrow> get_bool_attr B K Vb = Vb)"
  by (simp add: get_float_attr_def get_int_attr_def get_vec_attr_def get_bool_attr_def
      Attributes_get_cases get_if_float_None [symmetric] get_if_int_None [symmetric]
      get_if_vec_None [symmetric] get_if_bool_None [symmetric])

theorem attributes_get_default_witness:
  "get_int_attr attrs_example ''stride'' 1 = 2
   \<and> get_int_attr attrs_example ''pad'' 1 = 1
   \<and> get_int_attr attrs_example ''alpha'' 1 = 1
   \<and> get_float_attr attrs_example ''alpha'' 0 = 7
   \<and> get_float_attr attrs_example ''stride'' 3 = 3
   \<and> get_bool_attr attrs_example ''bias'' False = True
   \<and> get_bool_attr attrs_example ''stride'' False = False
   \<and> get_vec_attr attrs_example ''shape'' [] = [1, 2]
   \<and> get_vec_attr attrs_example ''alpha'' [9] = [9]"
proof -
  have e: "attrs_example ''stride'' = Some (AInt 2)" "attrs_example ''pad'' = None"
    "attrs_example ''alpha'' = Some (AFloat 7)" "attrs_example ''bias'' = Some (ABool True)"
    "attrs_example ''shape'' = Some (AIntVec [1, 2])"
    by (simp_all add: attrs_example_def)
  show ?thesis
    using attributes_get_default [where B = attrs_example and K = "''stride''" and i = 2 and Vi = 1
        and Vf = 3 and Vb = False]
      attributes_get_default [where B = attrs_example and K = "''pad''" and Vi = 1]
      attributes_get_default [where B = attrs_example and K = "''alpha''" and x = 7 and Vf = 0
        and Vi = 1 and Vv = "[9]"]
      attributes_get_default [where B = attrs_example and K = "''bias''" and b = True and Vb = False]
      attributes_get_default [where B = attrs_example and K = "''shape''" and v = "[1, 2]" and Vv = "[]"]
    by (simp add: e)
qed

subsection \<open>Convolution output shape\<close>

text \<open>
  C1, as amended. For a convolution node whose inputs \<open>x\<close> of shape \<open>[n, c, h, w]\<close> and \<open>w\<close> of
  shape \<open>[f, c', kh, kw]\<close> are present, with \<open>stride\<close>, \<open>pad\<close> and \<open>dilation\<close> read from
  the attributes (defaults 1), \<open>makeConvOutputTensor\<close> makes a new tensor of the data type of
  \<open>x\<close> with shape \<open>[1, f, 1 + NH / stride, 1 + NW / stride]\<close>, where
  \<open>NH = h + 2 pad - ((kh - 1) dilation + 1)\<close>, \<open>NW\<close> alike on the width, and \<open>/\<close> truncates
  towards zero, which is the floor whenever the numerator is not negative and the stride is
  positive. The first dimension is 1 whatever the batch dimension \<open>n\<close> of the input is. This
  holds for every non-zero stride and all values for which no step of the \<open>int\<close> arithmetic
  of the code overflows: \<open>f\<close> fits in an \<open>int\<close>, and so does every step of the formula on the
  height and on the width.
\<close>

theorem conv_output_shape:
  fixes h :: TensorHeap and nd :: Node and bn c ih iw f c' kh kw :: int64
  assumes x: "Tensors_get (inputs nd) ''x'' = Some xa" "deref h xa = Inr X"
      and w: "Tensors_get (inputs nd) ''w'' = Some wa" "deref h wa = Inr Wt"
      and dx: "dims X = [bn, c, ih, iw]" and dw: "dims Wt = [f, c', kh, kw]"
      and attrs: "stride = get_int_attr (attributes nd) ''stride'' 1"
                 "pad = get_int_attr (attributes nd) ''pad'' 1"
                 "dilation = get_int_attr (attributes nd) ''dilation'' 1"
      and stride: "stride \<noteq> 0"
      and rf: "int_range (sint f)"
      and rh: "conv_no_overflow (sint ih) (sint kh) (sint pad) (sint dilation) (sint stride)"
      and rw: "conv_no_overflow (sint iw) (sint kw) (sint pad) (sint dilation) (sint stride)"
      and nh: "NH = sint ih + 2 * sint pad - ((sint kh - 1) * sint dilation + 1)"
      and nw: "NW = sint iw + 2 * sint pad - ((sint kw - 1) * sint dilation + 1)"
  shows "\<exists>Y. makeConvOutputTensor h nm nd = Inr (Some (length h), h @ [Y])
             \<and> data_type Y = data_type X
             \<and> map sint (dims Y) = [1, sint f, 1 + NH sdiv sint stride, 1 + NW sdiv sint stride]
             \<and> (0 \<le> NH \<and> 0 < sint stride \<longrightarrow> NH sdiv sint stride = NH div sint stride)
             \<and> (0 \<le> NW \<and> 0 < sint stride \<longrightarrow> NW sdiv sint stride = NW div sint stride)"
proof -
  let ?aw = "(ucast iw :: int32) + 2 * pad - ((((ucast kw :: int32) - 1) * dilation) + 1)"
  let ?ah = "(ucast ih :: int32) + 2 * pad - ((((ucast kh :: int32) - 1) * dilation) + 1)"
  obtain qw where qw: "int_div ?aw stride = Inr qw"
      "sint (scast (1 + qw) :: int64) = 1 + NW sdiv sint stride"
    using conv_dim [OF stride rw nw] by auto
  obtain qh where qh: "int_div ?ah stride = Inr qh"
      "sint (scast (1 + qh) :: int64) = 1 + NH sdiv sint stride"
    using conv_dim [OF stride rh nh] by auto
  have "sint (ucast f :: int32) = sint f"
    unfolding narrow_int64 by (rule sint_int32_of_int) (use rf in \<open>simp_all add: int_range_def\<close>)
  then have ft: "sint (scast (ucast f :: int32) :: int64) = sint f"
    by (simp only: widen_int32)
  let ?Y = "Tensor_ctor (data_type X)
              [1, scast (ucast f :: int32), scast (1 + qh), scast (1 + qw)] (Some nm)"
  have "makeConvOutputTensor h nm nd = Inr (Some (length h), h @ [?Y])"
    using x w dx dw qw(1) qh(1) attrs [symmetric]
    by (simp add: makeConvOutputTensor_def at_def make_shared_def)
  moreover have "data_type ?Y = data_type X"
    by (simp add: Tensor_ctor_def)
  moreover have "map sint (dims ?Y) = [1, sint f, 1 + NH sdiv sint stride, 1 + NW sdiv sint stride]"
    using qw(2) qh(2) ft by (simp add: Tensor_ctor_def)
  ultimately show ?thesis
    by (intro exI [of _ ?Y]) (simp add: sdiv_nonneg)
qed

theorem conv_output_shape_witness:
  "(\<exists>Y. makeConvOutputTensor (conv_example_heap 1) ''y'' conv_example_node
          = Inr (Some 2, conv_example_heap 1 @ [Y])
       \<and> data_type Y = FLOAT \<and> map sint (dims Y) = [1, 8, 24, 24])
   \<and> (\<exists>Y. makeConvOutputTensor conv_wide_heap ''y'' conv_example_node
          = Inr (Some 2, conv_wide_heap @ [Y])
       \<and> data_type Y = FLOAT \<and> map sint (dims Y) = [1, 8, 39996, 39996])"
proof -
  have "\<exists>Y. makeConvOutputTensor (conv_example_heap 1) ''y'' conv_example_node
             = Inr (Some (length (conv_example_heap 1)), conv_example_heap 1 @ [Y])
          \<and> data_type Y = data_type (Tensor_ctor FLOAT [1, 3, 28, 28] (Some ''x''))
          \<and> map sint (dims Y) = [1, sint (8 :: int64), 1 + 23 sdiv sint (1 :: int32), 1 + 23 sdiv sint (1 :: int32)]
          \<and> (0 \<le> (23 :: int) \<and> 0 < sint (1 :: int32) \<longrightarrow> 23 sdiv sint (1 :: int32) = 23 div sint (1 :: int32))
          \<and> (0 \<le> (23 :: int) \<and> 0 < sint (1 :: int32) \<longrightarrow> 23 sdiv sint (1 :: int32) = 23 div sint (1 :: int32))"
    by (rule conv_output_shape [where xa = 0 and wa = 1 and bn = 1 and c = 3 and ih = 28 and iw = 28
            and c' = 3 and kh = 5 and kw = 5 and pad = 0 and dilation = 1
            and Wt = "Tensor_ctor FLOAT [8, 3, 5, 5] (Some ''w'')"])
       (simp_all add: get_int_attr_def Attributes_get_def conv_example_node_def conv_example_heap_def Tensors_get_def deref_def
          Tensor_ctor_def int_range_def conv_no_overflow_def signed_divide_int_def)
  then have 1: "\<exists>Y. makeConvOutputTensor (conv_example_heap 1) ''y'' conv_example_node
          = Inr (Some 2, conv_example_heap 1 @ [Y])
       \<and> data_type Y = FLOAT \<and> map sint (dims Y) = [1, 8, 24, 24]"
    by (simp add: conv_example_heap_def Tensor_ctor_def signed_divide_int_def numeral_2_eq_2)
  have "\<exists>Y. makeConvOutputTensor conv_wide_heap ''y'' conv_example_node
             = Inr (Some (length conv_wide_heap), conv_wide_heap @ [Y])
          \<and> data_type Y = data_type (Tensor_ctor FLOAT [1, 3, 40000, 40000] (Some ''x''))
          \<and> map sint (dims Y) = [1, sint (8 :: int64), 1 + 39995 sdiv sint (1 :: int32), 1 + 39995 sdiv sint (1 :: int32)]
          \<and> (0 \<le> (39995 :: int) \<and> 0 < sint (1 :: int32) \<longrightarrow> 39995 sdiv sint (1 :: int32) = 39995 div sint (1 :: int32))
          \<and> (0 \<le> (39995 :: int) \<and> 0 < sint (1 :: int32) \<longrightarrow> 39995 sdiv sint (1 :: int32) = 39995 div sint (1 :: int32))"
    by (rule conv_output_shape [where xa = 0 and wa = 1 and bn = 1 and c = 3 and ih = 40000 and iw = 40000
            and c' = 3 and kh = 5 and kw = 5 and pad = 0 and dilation = 1
            and Wt = "Tensor_ctor FLOAT [8, 3, 5, 5] (Some ''w'')"])
       (simp_all add: get_int_attr_def Attributes_get_def conv_example_node_def conv_wide_heap_def Tensors_get_def deref_def
          Tensor_ctor_def int_range_def conv_no_overflow_def signed_divide_int_def)
  then have 2: "\<exists>Y. makeConvOutputTensor conv_wide_heap ''y'' conv_example_node
          = Inr (Some 2, conv_wide_heap @ [Y])
       \<and> data_type Y = FLOAT \<and> map sint (dims Y) = [1, 8, 39996, 39996]"
    by (simp add: conv_wide_heap_def Tensor_ctor_def signed_divide_int_def numeral_2_eq_2)
  from 1 2 show ?thesis by (rule conjI)
qed

text \<open>
  C1 as stated fails: with input \<open>[2, 3, 28, 28]\<close> and filter \<open>[8, 3, 5, 5]\<close>, stride 1, pad 0,
  the output shape is \<open>[1, 8, 24, 24]\<close>, not \<open>[2, 8, 24, 24]\<close>: the batch dimension of the
  input is not passed through.
\<close>

theorem conv_batch_counterexample:
  "makeConvOutputTensor (conv_example_heap 2) ''y'' conv_example_node
     = Inr (Some 2, conv_example_heap 2 @ [Tensor_ctor FLOAT [1, 8, 24, 24] (Some ''y'')])
   \<and> dims (conv_example_heap 2 ! 0) = [2, 3, 28, 28]
   \<and> [1, 8, 24, 24] \<noteq> [2 :: int64, 8, 24, 24]"
  by (simp add: makeConvOutputTensor_def conv_example_heap_def conv_example_node_def
      Tensors_get_def deref_def at_def get_int_attr_def Attributes_get_def int_div_def
      make_shared_def Tensor_ctor_def signed_divide_int_def)

text \<open>
  The division of the code truncates: with input height and width 2, kernel 5 and stride 2 the
  numerator is \<open>-3\<close> and the output dimension is \<open>1 + (-1) = 0\<close>, where the floor would
  give \<open>-1\<close>.
\<close>

lemma conv_truncation_example:
  "makeConvOutputTensor
     [Tensor_ctor FLOAT [1, 3, 2, 2] (Some ''x''), Tensor_ctor FLOAT [8, 3, 5, 5] (Some ''w'')] ''y''
     (conv_example_node\<lparr>attributes := [''stride'' \<mapsto> AInt 2, ''pad'' \<mapsto> AInt 0]\<rparr>)
   = Inr (Some 2,
          [Tensor_ctor FLOAT [1, 3, 2, 2] (Some ''x''), Tensor_ctor FLOAT [8, 3, 5, 5] (Some ''w''),
           Tensor_ctor FLOAT [1, 8, 0, 0] (Some ''y'')])
   \<and> 1 + (2 + 2 * 0 - ((5 - 1) * 1 + 1)) div (2 :: int) = - 1"
  by code_simp

subsection \<open>Input and output tensors of a graph\<close>

lemma fold_insert_snd: "fold (\<lambda>t s. insert (snd t) s) ts s = s \<union> snd ` set ts"
  by (induction ts arbitrary: s) simp_all

lemma fold_erase_snd: "fold (\<lambda>t s. s - {snd t}) ts s = s - snd ` set ts"
proof (induction ts arbitrary: s)
  case Nil
  show ?case by simp
next
  case (Cons t ts)
  have "s - {snd t} - snd ` set ts = s - insert (snd t) (snd ` set ts)"
    by blast
  with Cons show ?case by simp
qed

lemma fold_union: "fold (\<lambda>n s. s \<union> g n) ns s = s \<union> (\<Union>n\<in>set ns. g n)"
proof (induction ns arbitrary: s)
  case Nil
  show ?case by simp
next
  case (Cons n ns)
  show ?case unfolding fold_Cons comp_apply Cons by (simp add: Un_assoc)
qed

lemma fold_diff: "fold (\<lambda>n s. s - g n) ns s = s - (\<Union>n\<in>set ns. g n)"
proof (induction ns arbitrary: s)
  case Nil
  show ?case by simp
next
  case (Cons n ns)
  have "s - g n - (\<Union>n\<in>set ns. g n) = s - (g n \<union> (\<Union>n\<in>set ns. g n))"
    by blast
  then show ?case unfolding fold_Cons comp_apply Cons by simp
qed

lemma fold_nodes_insert:
  "fold (\<lambda>n s. fold (\<lambda>t s. insert (snd t) s) (f n) s) ns s = s \<union> (\<Union>n\<in>set ns. snd ` set (f n))"
  unfolding fold_insert_snd by (rule fold_union)

lemma fold_nodes_erase:
  "fold (\<lambda>n s. fold (\<lambda>t s. s - {snd t}) (f n) s) ns s = s - (\<Union>n\<in>set ns. snd ` set (f n))"
  unfolding fold_erase_snd by (rule fold_diff)

lemma inputTensors_eq:
  "inputTensors g = (\<Union>n\<in>set (nodes g). snd ` set (inputs n)) - (\<Union>n\<in>set (nodes g). snd ` set (outputs n))"
  by (simp only: inputTensors_def Let_def fold_nodes_insert fold_nodes_erase Un_empty_left)

lemma outputTensors_eq:
  "outputTensors g = (\<Union>n\<in>set (nodes g). snd ` set (outputs n)) - (\<Union>n\<in>set (nodes g). snd ` set (inputs n))"
  by (simp only: outputTensors_def Let_def fold_nodes_insert fold_nodes_erase Un_empty_left)

text \<open>
  C7. For every graph, \<open>inputTensors()\<close> is exactly the set of tensor pointers that are an
  input of some node and an output of no node, and \<open>outputTensors()\<close> is exactly the set of
  those that are an output of some node and an input of no node. In a chain of two nodes
  \<open>A\<close>, \<open>B\<close>, a tensor \<open>x\<close> that \<open>A\<close> produces and \<open>B\<close> consumes is in neither set.
\<close>

theorem graph_input_output_tensors:
  "inputTensors g = (\<Union>n\<in>set (nodes g). snd ` set (inputs n)) - (\<Union>n\<in>set (nodes g). snd ` set (outputs n))
   \<and> outputTensors g = (\<Union>n\<in>set (nodes g). snd ` set (outputs n)) - (\<Union>n\<in>set (nodes g). snd ` set (inputs n))
   \<and> (nodes g = [A, B] \<and> x \<in> snd ` set (outputs A) \<and> x \<in> snd ` set (inputs B)
        \<longrightarrow> x \<notin> inputTensors g \<and> x \<notin> outputTensors g)"
proof (intro conjI impI)
  show "inputTensors g = (\<Union>n\<in>set (nodes g). snd ` set (inputs n)) - (\<Union>n\<in>set (nodes g). snd ` set (outputs n))"
    by (rule inputTensors_eq)
  show "outputTensors g = (\<Union>n\<in>set (nodes g). snd ` set (outputs n)) - (\<Union>n\<in>set (nodes g). snd ` set (inputs n))"
    by (rule outputTensors_eq)
next
  assume a: "nodes g = [A, B] \<and> x \<in> snd ` set (outputs A) \<and> x \<in> snd ` set (inputs B)"
  show "x \<notin> inputTensors g"
    unfolding inputTensors_eq using a by simp
  show "x \<notin> outputTensors g"
    unfolding outputTensors_eq using a by simp
qed

theorem graph_input_output_tensors_witness:
  "inputTensors chain_example = {Some 0} \<and> outputTensors chain_example = {Some 2}
   \<and> Some 1 \<notin> inputTensors chain_example \<and> Some 1 \<notin> outputTensors chain_example"
proof -
  have n: "nodes chain_example = [chain_A, chain_B]"
    by (simp add: chain_example_def)
  have io: "inputs chain_A = [(''x'', Some 0)]" "outputs chain_A = [(''y'', Some 1)]"
    "inputs chain_B = [(''x'', Some 1)]" "outputs chain_B = [(''y'', Some 2)]"
    by (simp_all add: chain_A_def chain_B_def)
  show ?thesis
    using graph_input_output_tensors [of chain_example chain_A chain_B "Some 1"]
    by (simp add: n io insert_Diff_if)
qed

subsection \<open>Copying from a tensor without data\<close>

text \<open>
  C10. When the source \<open>S\<close> has a null access, which is the case of a plain \<open>Tensor\<close> with
  neither storage nor generator, \<open>D.copyFrom(S)\<close> returns at once with every storage as it was:
  no element of \<open>D\<close> or of any other tensor changes, and nothing fails, not even the assertion
  on the element counts, which comes later.
\<close>

theorem copyFrom_null_source:
  assumes "access pf S = None"
  shows "copyFrom pf sh D S = Inr sh \<and> cls S = PlainTensor"
  using assms by (auto simp: copyFrom_def access_def split: TensorClass.splits)

theorem copyFrom_null_source_witness:
  "access test_platform test_plain_tensor = None
   \<and> elements test_plain_tensor \<noteq> elements test_cpu_tensor
   \<and> copyFrom test_platform [test_storage] test_cpu_tensor test_plain_tensor = Inr [test_storage]"
proof -
  have a: "access test_platform test_plain_tensor = None"
    by (simp add: access_def test_plain_tensor_def Tensor_ctor_def)
  have "elements test_plain_tensor \<noteq> elements test_cpu_tensor"
    by (simp add: test_plain_tensor_def test_cpu_tensor_def Tensor_ctor_def elements_from_dims_def)
  with a copyFrom_null_source [OF a, of "[test_storage]" test_cpu_tensor]
  show ?thesis by simp
qed

subsection \<open>Slices share the storage of their parent\<close>

lemma fold_weighted:
  "fold (\<lambda>(e, s) off. off + e * s) zs (off :: int64) = off + sum_list (map (\<lambda>(e, s). e * s) zs)"
  by (induction zs arbitrary: off) (simp_all add: split_def add.assoc)

lemma offsetForElement_sum:
  "offsetForElement st off el = off + sum_list (map (\<lambda>(e, s). e * s) (zip el st))"
  by (simp add: offsetForElement_def fold_weighted)

lemma weighted_add_coord:
  "sum_list (map (\<lambda>(e, s). e * s) (zip (add_coord c x) st))
     = sum_list (map (\<lambda>(e, s). e * s) (zip c st)) + (sum_list (map (\<lambda>(e, s). e * s) (zip x st)) :: int64)"
proof (induction c x arbitrary: st rule: add_coord.induct)
  case (1 c cs x xs)
  then show ?case by (cases st) (simp_all add: algebra_simps)
next
  case (2 cs)
  then show ?case by simp
next
  case (3 xs)
  then show ?case by simp
qed

lemma slice_offset_adjust:
  "offsetForElement st (fold (\<lambda>(x, s) o'. o' + x * s) (zip ov st) off) c
     = offsetForElement st off (add_coord c ov)"
  by (simp add: offsetForElement_sum fold_weighted weighted_add_coord)

lemma slice_CPUTensor:
  assumes "cls T = CPUTensor st sa off" "sa < length sh"
  shows "Tensor_slice sh T ov sz =
           Inr (Some ((Tensor_ctor (st_data_type (sh ! sa)) sz (namePostfix T ''slice''))
                        \<lparr>cls := CPUTensor st sa (off + sum_list (map (\<lambda>(x, s). x * s) (zip ov st)))\<rparr>))"
  using assms by (simp add: Tensor_slice_def at_def fold_weighted)

lemma access_set_get:
  assumes "sa < length sh" "\<not> mmaped (sh ! sa)"
      and "cls A = CPUTensor st sa off1" "cls B = CPUTensor st sa off2"
      and "offsetForElement st off1 c1 = offsetForElement st off2 c2"
      and "unat (offsetForElement st off2 c2) < length (data (sh ! sa))"
  shows "\<exists>sh'. Tensor_set pf sh A c1 v = Inr sh'
           \<and> Tensor_get pf sh' B c2 = Inr (get_fn (sh ! sa) (set_fn (sh ! sa) v))"
  using assms
  by (simp add: Tensor_set_def Tensor_get_def access_def TensorAccess_set_def TensorAccess_get_def
      at_def TensorStorage_set_def TensorStorage_get_def)

text \<open>
  C2, as amended. Let \<open>T\<close> be a \<open>CPUTensor\<close> with strides \<open>st\<close>, offset \<open>off\<close> and a storage
  that is writable memory, not the read-only mapping of a loaded file. Every slice \<open>S\<close> of
  \<open>T\<close> at an offset vector \<open>ov\<close> has the storage and the strides of \<open>T\<close> and the offset
  \<open>off\<close> plus the sum of \<open>ov[i] * st[i]\<close>. For every coordinate \<open>c\<close> whose element lies inside
  the buffer, writing \<open>v\<close> through \<open>S\<close> at \<open>c\<close> and then reading \<open>T\<close> at the offset-adjusted
  coordinate returns the value as the element type of the storage holds it, \<open>get_(set_(v))\<close>,
  which is \<open>v\<close> whenever the cast to the element type is exact; and the same with \<open>S\<close> and
  \<open>T\<close> exchanged.
\<close>

theorem slice_aliasing:
  assumes T: "cls T = CPUTensor st sa off" and sa: "sa < length sh"
      and rw: "\<not> mmaped (sh ! sa)"
      and inb: "unat (offsetForElement st off (add_coord c ov)) < length (data (sh ! sa))"
  shows "\<exists>S. Tensor_slice sh T ov sz = Inr (Some S)
         \<and> cls S = CPUTensor st sa (off + sum_list (map (\<lambda>(x, s). x * s) (zip ov st)))
         \<and> dims S = sz \<and> data_type S = st_data_type (sh ! sa)
         \<and> (\<exists>sh'. Tensor_set pf sh S c v = Inr sh'
               \<and> Tensor_get pf sh' T (add_coord c ov) = Inr (get_fn (sh ! sa) (set_fn (sh ! sa) v)))
         \<and> (\<exists>sh'. Tensor_set pf sh T (add_coord c ov) v = Inr sh'
               \<and> Tensor_get pf sh' S c = Inr (get_fn (sh ! sa) (set_fn (sh ! sa) v)))"
proof -
  let ?base = "off + sum_list (map (\<lambda>(x, s). x * s) (zip ov st))"
  let ?S = "(Tensor_ctor (st_data_type (sh ! sa)) sz (namePostfix T ''slice''))
              \<lparr>cls := CPUTensor st sa ?base\<rparr>"
  have e: "offsetForElement st ?base c = offsetForElement st off (add_coord c ov)"
    using slice_offset_adjust [of st ov off c] by (simp add: fold_weighted)
  have inb': "unat (offsetForElement st ?base c) < length (data (sh ! sa))"
    using inb e by simp
  have S: "cls ?S = CPUTensor st sa ?base" "dims ?S = sz" "data_type ?S = st_data_type (sh ! sa)"
    by (simp_all add: Tensor_ctor_def)
  have 1: "Tensor_slice sh T ov sz = Inr (Some ?S)"
    by (rule slice_CPUTensor [OF T sa])
  have 3: "\<exists>sh'. Tensor_set pf sh ?S c v = Inr sh'
               \<and> Tensor_get pf sh' T (add_coord c ov) = Inr (get_fn (sh ! sa) (set_fn (sh ! sa) v))"
    by (rule access_set_get [OF sa rw S(1) T e inb])
  have 4: "\<exists>sh'. Tensor_set pf sh T (add_coord c ov) v = Inr sh'
               \<and> Tensor_get pf sh' ?S c = Inr (get_fn (sh ! sa) (set_fn (sh ! sa) v))"
    by (rule access_set_get [OF sa rw T S(1) e [symmetric] inb'])
  show ?thesis
    by (intro exI [of _ ?S] conjI) (fact 1 S 3 4)+
qed

theorem slice_aliasing_witness:
  "\<exists>S. Tensor_slice [test_storage] test_cpu_tensor [1, 1] [1, 2] = Inr (Some S)
       \<and> cls S = CPUTensor [3, 1] 0 4
       \<and> dims S = [1, 2] \<and> data_type S = FLOAT
       \<and> (\<exists>sh'. Tensor_set test_platform [test_storage] S [0, 1] 99 = Inr sh'
             \<and> Tensor_get test_platform sh' test_cpu_tensor [1, 2] = Inr 99)
       \<and> (\<exists>sh'. Tensor_set test_platform [test_storage] test_cpu_tensor [1, 2] 99 = Inr sh'
             \<and> Tensor_get test_platform sh' S [0, 1] = Inr 99)"
proof -
  have T: "cls test_cpu_tensor = CPUTensor [3, 1] 0 0"
    by (simp add: test_cpu_tensor_def)
  have s: "[test_storage] ! 0 = test_storage" "\<not> mmaped test_storage"
    "length (data test_storage) = 6"
    "get_fn test_storage (set_fn test_storage 99) = 99" "st_data_type test_storage = FLOAT"
    by (simp_all add: test_storage_def test_platform_def datatype_get_def datatype_set_def)
  have inb: "unat (offsetForElement [3, 1] 0 (add_coord [0, 1] [1, 1])) < length (data ([test_storage] ! 0))"
    by (simp add: offsetForElement_def s)
  have "(0 :: nat) < length [test_storage]" by simp
  from slice_aliasing [OF T this _ inb, where pf = test_platform and sz = "[1, 2]" and v = 99]
  show ?thesis by (simp add: s)
qed

text \<open>
  C2 as stated fails on a storage-backed tensor that \<open>Tensor::load\<close> returned: its storage
  is the file mapped read-only, so the element can be read through a slice and the write
  through the slice faults.
\<close>

theorem slice_readonly_counterexample:
  "Tensor_load test_platform test_fs [] ''t'' None = (Some loaded_tensor, loaded_fs, [loaded_storage])
   \<and> Tensor_slice [loaded_storage] loaded_tensor [0] [2] = Inr (Some loaded_slice)
   \<and> Tensor_get test_platform [loaded_storage] loaded_slice [1] = Inr 6
   \<and> Tensor_set test_platform [loaded_storage] loaded_slice [1] 9 = Inl SegFault"
  by (simp add: Let_def Tensor_load_def test_file_def test_fs_def loaded_fs_def file_size_def
      payload_offset_def disk_element_size_def DataTypeSize_def
      loaded_tensor_def loaded_storage_def loaded_slice_def
      computeCPUStrides_def HostTensorStorage_mmap_def Tensor_slice_def at_def Tensor_ctor_def
      namePostfix_def Tensor_get_def Tensor_set_def access_def TensorAccess_get_def
      TensorAccess_set_def TensorStorage_get_def TensorStorage_set_def offsetForElement_def
      test_platform_def datatype_get_def)

subsection \<open>Flipping a double-buffered storage\<close>

lemma and_one_parity: "x AND (1 :: int32) = of_bool (odd x)"
  by (simp add: and_one_eq mod_2_eq_odd)

lemma flip_slots:
  "(x AND (1 :: int32) = 0 \<and> (x + 1) AND 1 = 1) \<or> (x AND (1 :: int32) = 1 \<and> (x + 1) AND 1 = 0)"
  by (simp add: and_one_parity)

lemma cu_data_slot:
  assumes "data_slot s b = of_nat k" "k < 2" "length (buffers s) = 2"
  shows "cu_data s b = Inr (buffers s ! k)" "nat (sint (data_slot s b)) = k"
  using assms by (auto simp: cu_data_def buffer_at_def less_2_cases_iff)

lemma double_buffer_slots:
  assumes nb: "num_buffers s = 2" and len: "length (buffers s) = 2"
      and k: "index s AND 1 = of_nat k" "(index s + 1) AND 1 = of_nat k'" "k < 2" "k' < 2" "k \<noteq> k'"
  shows "data_slot (flip s) 0 \<noteq> data_slot s 0
       \<and> cu_data s 0 = Inr (buffers s ! nat (sint (data_slot s 0)))
       \<and> cu_data (flip s) 0 = Inr (buffers s ! nat (sint (data_slot (flip s) 0)))
       \<and> {nat (sint (data_slot s 0)), nat (sint (data_slot (flip s) 0))} = {0, 1}
       \<and> buffers (flip s) = buffers s
       \<and> data_slot (flip s) (- 1) = data_slot s 0
       \<and> deviceMem_slot (flip s) (index (flip s) - 1) = data_slot s 0
       \<and> cu_get (flip s) offset (- 1) = cu_get s offset 0
       \<and> (unat offset < length (buffers s ! nat (sint (data_slot s 0))) \<longrightarrow>
            (\<exists>s'. cu_set s offset v 0 = Inr s'
               \<and> cu_get s' offset 0 = Inr (cu_get_fn s (cu_set_fn s v))
               \<and> cu_get (flip s') offset (- 1) = Inr (cu_get_fn s (cu_set_fn s v))
               \<and> cu_data (flip s') 0 = cu_data (flip s) 0))"
proof -
  have slot: "data_slot s 0 = of_nat k" "data_slot (flip s) 0 = of_nat k'"
    "data_slot (flip s) (- 1) = of_nat k" "deviceMem_slot (flip s) (index (flip s) - 1) = of_nat k"
    using nb k(1,2) by (simp_all add: data_slot_def deviceMem_slot_def flip_def)
  have lenf: "length (buffers (flip s)) = 2" and bf: "buffers (flip s) = buffers s"
    using len by (simp_all add: flip_def)
  have kk: "nat (sint (data_slot s 0)) = k" "nat (sint (data_slot (flip s) 0)) = k'"
    by (rule cu_data_slot(2) [OF slot(1) k(3) len], rule cu_data_slot(2) [OF slot(2) k(4) lenf])
  have 1: "data_slot (flip s) 0 \<noteq> data_slot s 0"
    using kk k(5) by metis
  have 2: "cu_data s 0 = Inr (buffers s ! k)"
    by (rule cu_data_slot(1) [OF slot(1) k(3) len])
  have 3: "cu_data (flip s) 0 = Inr (buffers s ! k')"
    using cu_data_slot(1) [OF slot(2) k(4) lenf] bf by simp
  have 4: "{k, k'} = {0, 1}"
    using k(3,4,5) by (auto simp: less_2_cases_iff)
  have 5: "cu_data (flip s) (- 1) = cu_data s 0"
    using cu_data_slot(1) [OF slot(3) k(3) lenf] bf 2 by simp
  have 6: "cu_get (flip s) offset (- 1) = cu_get s offset 0"
    unfolding cu_get_def 5 by (simp add: flip_def)
  have 7: "\<exists>s'. cu_set s offset v 0 = Inr s'
               \<and> cu_get s' offset 0 = Inr (cu_get_fn s (cu_set_fn s v))
               \<and> cu_get (flip s') offset (- 1) = Inr (cu_get_fn s (cu_set_fn s v))
               \<and> cu_data (flip s') 0 = cu_data (flip s) 0"
    if off: "unat offset < length (buffers s ! k)"
  proof -
    let ?s' = "s\<lparr>buffers := (buffers s)[k := (buffers s ! k)[unat offset := cu_set_fn s v]]\<rparr>"
    have a: "cu_set s offset v 0 = Inr ?s'"
      using off by (simp add: cu_set_def 2 kk)
    have len': "length (buffers (flip ?s')) = 2" "length (buffers ?s') = 2"
      using len by (simp_all add: flip_def)
    have sl: "data_slot (flip ?s') (- 1) = of_nat k" "data_slot (flip ?s') 0 = of_nat k'"
      "data_slot ?s' 0 = of_nat k"
      using nb k(1,2) by (simp_all add: data_slot_def flip_def)
    have d1: "cu_data (flip ?s') (- 1) = Inr ((buffers s ! k)[unat offset := cu_set_fn s v])"
      using cu_data_slot(1) [OF sl(1) k(3) len'(1)] k(3) len by (simp add: flip_def)
    have d0: "cu_data (flip ?s') 0 = Inr (buffers s ! k')"
      using cu_data_slot(1) [OF sl(2) k(4) len'(1)] k(5) by (simp add: flip_def)
    have d2: "cu_data ?s' 0 = Inr ((buffers s ! k)[unat offset := cu_set_fn s v])"
      using cu_data_slot(1) [OF sl(3) k(3) len'(2)] k(3) len by simp
    have b: "cu_get (flip ?s') offset (- 1) = Inr (cu_get_fn s (cu_set_fn s v))"
      unfolding cu_get_def d1 using off by (simp add: at_def flip_def)
    have c: "cu_get ?s' offset 0 = Inr (cu_get_fn s (cu_set_fn s v))"
      unfolding cu_get_def d2 using off by (simp add: at_def)
    show ?thesis using a b c d0 3 by simp
  qed
  show ?thesis
    unfolding kk using 1 2 3 4 bf slot(3) slot(4) slot(1) 6 7 by simp
qed

lemma double_buffer_storage:
  assumes nb: "num_buffers s = 2" and len: "length (buffers s) = 2"
  shows "data_slot (flip s) 0 \<noteq> data_slot s 0
       \<and> cu_data s 0 = Inr (buffers s ! nat (sint (data_slot s 0)))
       \<and> cu_data (flip s) 0 = Inr (buffers s ! nat (sint (data_slot (flip s) 0)))
       \<and> {nat (sint (data_slot s 0)), nat (sint (data_slot (flip s) 0))} = {0, 1}
       \<and> buffers (flip s) = buffers s
       \<and> data_slot (flip s) (- 1) = data_slot s 0
       \<and> deviceMem_slot (flip s) (index (flip s) - 1) = data_slot s 0
       \<and> cu_get (flip s) offset (- 1) = cu_get s offset 0
       \<and> (unat offset < length (buffers s ! nat (sint (data_slot s 0))) \<longrightarrow>
            (\<exists>s'. cu_set s offset v 0 = Inr s'
               \<and> cu_get s' offset 0 = Inr (cu_get_fn s (cu_set_fn s v))
               \<and> cu_get (flip s') offset (- 1) = Inr (cu_get_fn s (cu_set_fn s v))
               \<and> cu_data (flip s') 0 = cu_data (flip s) 0))"
proof -
  consider "index s AND 1 = 0 \<and> (index s + 1) AND 1 = 1"
    | "index s AND 1 = 1 \<and> (index s + 1) AND 1 = 0"
    using flip_slots [of "index s"] by blast
  then show ?thesis
  proof cases
    case 1
    show ?thesis
      by (rule double_buffer_slots [OF nb len, of 0 1]) (use 1 in simp_all)
  next
    case 2
    show ?thesis
      by (rule double_buffer_slots [OF nb len, of 1 0]) (use 2 in simp_all)
  qed
qed

lemma flip_fields:
  "num_buffers (flip s) = num_buffers s" "length (buffers (flip s)) = length (buffers s)"
  "cu_get_fn (flip s) = cu_get_fn s" "cu_set_fn (flip s) = cu_set_fn s"
  by (simp_all add: flip_def)

text \<open>
  C3. Let the tensor \<open>t\<close> lie on the storage \<open>s\<close>, which has two buffers and any value of
  \<open>index_\<close>, and let a view be what \<open>t.access()\<close> returns.
  \<^item> \<open>t.flip()\<close> returns. The buffer that a view addresses afterwards, through \<open>data()\<close> and
    through \<open>get\<close>, is the other of the two physical buffers than the one that a view
    addressed before; the value that \<open>flip\<close> returns is the position of the buffer now
    current.
  \<^item> \<open>flip\<close> changes no buffer. The buffer that was current before is the one that buffer
    select \<open>-1\<close> (\<open>data(-1)\<close>, and \<open>deviceMem(offset, index_ - 1)\<close>) addresses after the
    flip, so every element reads there what the view read before the flip.
  \<^item> A value written through a view before the flip is read back by the view, and after
    the flip it is read back at buffer select \<open>-1\<close>, while the buffer that a view then
    addresses is untouched by the write.
\<close>

theorem double_buffer_flip:
  assumes a: "ct_storage t < length h" and s: "h ! ct_storage t = s"
      and nb: "num_buffers s = 2" and len: "length (buffers s) = 2"
      and ofs: "ofs = offsetForElement (ct_strides t) (ct_offset t) element"
  shows "\<exists>r h'. CudaTensor_flip h t = Inr (r, h')
       \<and> data_slot (h' ! ct_storage t) 0 \<noteq> data_slot s 0
       \<and> {nat (sint (data_slot s 0)), nat (sint (data_slot (h' ! ct_storage t) 0))} = {0, 1}
       \<and> r = data_slot (h' ! ct_storage t) 0
       \<and> CudaTensorAccess_data h (CudaTensor_access t)
           = Inr (buffers s ! nat (sint (data_slot s 0)))
       \<and> CudaTensorAccess_data h' (CudaTensor_access t)
           = Inr (buffers s ! nat (sint (data_slot (h' ! ct_storage t) 0)))
       \<and> CudaTensorAccess_get h' (CudaTensor_access t) element
           = bindE (at (buffers s ! nat (sint (data_slot (h' ! ct_storage t) 0))) (unat ofs))
               (\<lambda>c. Inr (cu_get_fn s c))
       \<and> buffers (h' ! ct_storage t) = buffers s
       \<and> data_slot (h' ! ct_storage t) (- 1) = data_slot s 0
       \<and> deviceMem_slot (h' ! ct_storage t) (index (h' ! ct_storage t) - 1) = data_slot s 0
       \<and> cu_get (h' ! ct_storage t) ofs (- 1) = CudaTensorAccess_get h (CudaTensor_access t) element
       \<and> (unat ofs < length (buffers s ! nat (sint (data_slot s 0))) \<longrightarrow>
            (\<exists>h1 r2 h2. CudaTensorAccess_set h (CudaTensor_access t) element v = Inr h1
               \<and> CudaTensorAccess_get h1 (CudaTensor_access t) element
                   = Inr (cu_get_fn s (cu_set_fn s v))
               \<and> CudaTensor_flip h1 t = Inr (r2, h2)
               \<and> cu_get (h2 ! ct_storage t) ofs (- 1) = Inr (cu_get_fn s (cu_set_fn s v))
               \<and> CudaTensorAccess_data h2 (CudaTensor_access t)
                   = CudaTensorAccess_data h' (CudaTensor_access t)))"
proof -
  let ?a = "ct_storage t"
  let ?h' = "h[?a := flip s]"
  note st = double_buffer_storage [OF nb len, of ofs v]
  have fl: "CudaTensor_flip h t = Inr (index (flip s) AND 1, ?h')"
    using a s by (simp add: CudaTensor_flip_def at_def Let_def)
  have n: "?h' ! ?a = flip s" "?a < length ?h'"
    using a by simp_all
  have r: "index (flip s) AND 1 = data_slot (flip s) 0"
    using nb by (simp add: data_slot_def flip_def)
  have d: "CudaTensorAccess_data h (CudaTensor_access t) = cu_data s 0"
    "CudaTensorAccess_data ?h' (CudaTensor_access t) = cu_data (flip s) 0"
    using a s by (simp_all add: CudaTensorAccess_data_def CudaTensor_access_def at_def)
  have g: "CudaTensorAccess_get h (CudaTensor_access t) element = cu_get s ofs 0"
    "CudaTensorAccess_get ?h' (CudaTensor_access t) element = cu_get (flip s) ofs 0"
    using a s ofs by (simp_all add: CudaTensorAccess_get_def CudaTensor_access_def at_def)
  have g': "cu_get (flip s) ofs 0
             = bindE (at (buffers s ! nat (sint (data_slot (flip s) 0))) (unat ofs))
                 (\<lambda>c. Inr (cu_get_fn s c))"
    using st by (simp add: cu_get_def flip_def)
  have w: "\<exists>h1 r2 h2. CudaTensorAccess_set h (CudaTensor_access t) element v = Inr h1
               \<and> CudaTensorAccess_get h1 (CudaTensor_access t) element
                   = Inr (cu_get_fn s (cu_set_fn s v))
               \<and> CudaTensor_flip h1 t = Inr (r2, h2)
               \<and> cu_get (h2 ! ?a) ofs (- 1) = Inr (cu_get_fn s (cu_set_fn s v))
               \<and> CudaTensorAccess_data h2 (CudaTensor_access t)
                   = CudaTensorAccess_data ?h' (CudaTensor_access t)"
    if "unat ofs < length (buffers s ! nat (sint (data_slot s 0)))"
  proof -
    from st that obtain s' where s': "cu_set s ofs v 0 = Inr s'"
        "cu_get s' ofs 0 = Inr (cu_get_fn s (cu_set_fn s v))"
        "cu_get (flip s') ofs (- 1) = Inr (cu_get_fn s (cu_set_fn s v))"
        "cu_data (flip s') 0 = cu_data (flip s) 0"
      by blast
    let ?h1 = "h[?a := s']"
    let ?h2 = "?h1[?a := flip s']"
    have 1: "CudaTensorAccess_set h (CudaTensor_access t) element v = Inr ?h1"
      using a s ofs s'(1) by (simp add: CudaTensorAccess_set_def CudaTensor_access_def at_def)
    have 2: "CudaTensorAccess_get ?h1 (CudaTensor_access t) element
               = Inr (cu_get_fn s (cu_set_fn s v))"
      using a ofs s'(2) by (simp add: CudaTensorAccess_get_def CudaTensor_access_def at_def)
    have 3: "CudaTensor_flip ?h1 t = Inr (index (flip s') AND 1, ?h2)"
      using a by (simp add: CudaTensor_flip_def at_def Let_def)
    have 4: "cu_get (?h2 ! ?a) ofs (- 1) = Inr (cu_get_fn s (cu_set_fn s v))"
      using a s'(3) by simp
    have 5: "CudaTensorAccess_data ?h2 (CudaTensor_access t)
               = CudaTensorAccess_data ?h' (CudaTensor_access t)"
      using a s'(4) d(2) by (simp add: CudaTensorAccess_data_def CudaTensor_access_def at_def)
    from 1 2 3 4 5 show ?thesis by blast
  qed
  have "data_slot (?h' ! ?a) 0 \<noteq> data_slot s 0
       \<and> {nat (sint (data_slot s 0)), nat (sint (data_slot (?h' ! ?a) 0))} = {0, 1}
       \<and> index (flip s) AND 1 = data_slot (?h' ! ?a) 0
       \<and> CudaTensorAccess_data h (CudaTensor_access t)
           = Inr (buffers s ! nat (sint (data_slot s 0)))
       \<and> CudaTensorAccess_data ?h' (CudaTensor_access t)
           = Inr (buffers s ! nat (sint (data_slot (?h' ! ?a) 0)))
       \<and> CudaTensorAccess_get ?h' (CudaTensor_access t) element
           = bindE (at (buffers s ! nat (sint (data_slot (?h' ! ?a) 0))) (unat ofs))
               (\<lambda>c. Inr (cu_get_fn s c))
       \<and> buffers (?h' ! ?a) = buffers s
       \<and> data_slot (?h' ! ?a) (- 1) = data_slot s 0
       \<and> deviceMem_slot (?h' ! ?a) (index (?h' ! ?a) - 1) = data_slot s 0
       \<and> cu_get (?h' ! ?a) ofs (- 1) = CudaTensorAccess_get h (CudaTensor_access t) element"
    unfolding n(1) d g g' using st r by (elim conjE, intro conjI) (assumption | simp)+
  with fl w show ?thesis
    by (intro exI [of _ "index (flip s) AND 1"] exI [of _ ?h']) (simp del: nth_list_update_eq)
qed

theorem double_buffer_flip_witness:
  "\<exists>h'. CudaTensor_flip [test_cuda_storage] test_cuda_tensor = Inr (0, h')
      \<and> CudaTensorAccess_data [test_cuda_storage] (CudaTensor_access test_cuda_tensor) = Inr [3, 4]
      \<and> CudaTensorAccess_data h' (CudaTensor_access test_cuda_tensor) = Inr [1, 2]
      \<and> CudaTensorAccess_get h' (CudaTensor_access test_cuda_tensor) [1] = Inr 2
      \<and> cu_get (h' ! 0) 1 (- 1) = Inr 4
      \<and> (\<exists>h1 r2 h2. CudaTensorAccess_set [test_cuda_storage] (CudaTensor_access test_cuda_tensor) [1] 9
                       = Inr h1
           \<and> CudaTensorAccess_get h1 (CudaTensor_access test_cuda_tensor) [1] = Inr 9
           \<and> CudaTensor_flip h1 test_cuda_tensor = Inr (r2, h2)
           \<and> cu_get (h2 ! 0) 1 (- 1) = Inr 9
           \<and> CudaTensorAccess_data h2 (CudaTensor_access test_cuda_tensor) = Inr [1, 2])"
proof -
  let ?t = test_cuda_tensor and ?s = test_cuda_storage
  have a: "ct_storage ?t < length [?s]" and s: "[?s] ! ct_storage ?t = ?s"
    by (simp_all add: test_cuda_tensor_def)
  have nb: "num_buffers ?s = 2" and len: "length (buffers ?s) = 2"
    by (simp_all add: test_cuda_storage_def)
  have o: "1 = offsetForElement (ct_strides ?t) (ct_offset ?t) [1]"
    by (simp add: offsetForElement_def test_cuda_tensor_def)
  have sl: "data_slot ?s 0 = 1"
    by (simp add: data_slot_def test_cuda_storage_def)
  have f: "cu_get_fn ?s (cu_set_fn ?s 9) = 9" "cu_get_fn ?s 2 = 2" "cu_get_fn ?s 4 = 4"
    by (simp_all add: test_cuda_storage_def test_platform_def datatype_get_def datatype_set_def)
  have b: "buffers ?s = [[1, 2], [3, 4]]"
    by (simp add: test_cuda_storage_def)
  have c: "ct_storage ?t = 0"
    by (simp add: test_cuda_tensor_def)
  from double_buffer_flip [OF a s nb len o, of 9]
  obtain r h' where
        t1: "CudaTensor_flip [?s] ?t = Inr (r, h')"
    and t2: "data_slot (h' ! ct_storage ?t) 0 \<noteq> data_slot ?s 0"
    and t3: "{nat (sint (data_slot ?s 0)), nat (sint (data_slot (h' ! ct_storage ?t) 0))} = {0, 1}"
    and t4: "r = data_slot (h' ! ct_storage ?t) 0"
    and t5: "CudaTensorAccess_data [?s] (CudaTensor_access ?t)
               = Inr (buffers ?s ! nat (sint (data_slot ?s 0)))"
    and t6: "CudaTensorAccess_data h' (CudaTensor_access ?t)
               = Inr (buffers ?s ! nat (sint (data_slot (h' ! ct_storage ?t) 0)))"
    and t7: "CudaTensorAccess_get h' (CudaTensor_access ?t) [1]
               = bindE (at (buffers ?s ! nat (sint (data_slot (h' ! ct_storage ?t) 0))) (unat (1 :: int64)))
                   (\<lambda>c. Inr (cu_get_fn ?s c))"
    and t8: "buffers (h' ! ct_storage ?t) = buffers ?s"
    and t9: "data_slot (h' ! ct_storage ?t) (- 1) = data_slot ?s 0"
    and t10: "deviceMem_slot (h' ! ct_storage ?t) (index (h' ! ct_storage ?t) - 1) = data_slot ?s 0"
    and t11: "cu_get (h' ! ct_storage ?t) 1 (- 1) = CudaTensorAccess_get [?s] (CudaTensor_access ?t) [1]"
    and t12: "unat (1 :: int64) < length (buffers ?s ! nat (sint (data_slot ?s 0))) \<longrightarrow>
       (\<exists>h1 r2 h2. CudaTensorAccess_set [?s] (CudaTensor_access ?t) [1] 9 = Inr h1
           \<and> CudaTensorAccess_get h1 (CudaTensor_access ?t) [1] = Inr (cu_get_fn ?s (cu_set_fn ?s 9))
           \<and> CudaTensor_flip h1 ?t = Inr (r2, h2)
           \<and> cu_get (h2 ! ct_storage ?t) 1 (- 1) = Inr (cu_get_fn ?s (cu_set_fn ?s 9))
           \<and> CudaTensorAccess_data h2 (CudaTensor_access ?t)
               = CudaTensorAccess_data h' (CudaTensor_access ?t))"
    by (elim exE conjE)
  have k1: "nat (sint (data_slot ?s 0)) = 1"
    by (simp add: sl)
  have "nat (sint (data_slot (h' ! ct_storage ?t) 0)) \<in> {0, 1}"
    using t3 by blast
  moreover have "nat (sint (data_slot (h' ! ct_storage ?t) 0)) \<noteq> 1"
  proof
    assume "nat (sint (data_slot (h' ! ct_storage ?t) 0)) = 1"
    with t3 k1 have "{1, 1} = {0, 1 :: nat}" by simp
    then show False by simp
  qed
  ultimately have k: "nat (sint (data_slot (h' ! ct_storage ?t) 0)) = 0"
    by simp
  have g: "CudaTensorAccess_get [?s] (CudaTensor_access ?t) [1] = Inr 4"
    using t11 t9 sl
    by (simp add: CudaTensorAccess_get_def CudaTensor_access_def test_cuda_tensor_def at_def
        offsetForElement_def cu_get_def cu_data_def buffer_at_def b f)
  have 1: "CudaTensorAccess_data [?s] (CudaTensor_access ?t) = Inr [3, 4]"
    using t5 by (simp add: k1 b)
  have 2: "CudaTensorAccess_data h' (CudaTensor_access ?t) = Inr [1, 2]"
    using t6 by (simp add: k b)
  have 3: "CudaTensorAccess_get h' (CudaTensor_access ?t) [1] = Inr 2"
    using t7 by (simp add: k b at_def f)
  have 4: "cu_get (h' ! 0) 1 (- 1) = Inr 4"
    using t11 g by (simp add: c)
  have fl: "CudaTensor_flip [?s] ?t = Inr (index (flip ?s) AND 1, [flip ?s])"
    by (simp add: CudaTensor_flip_def at_def Let_def c)
  have "index (flip ?s) AND 1 = 0"
    by (simp add: flip_def test_cuda_storage_def)
  with fl t1 have r0: "r = 0" by simp
  have "unat (1 :: int64) < length (buffers ?s ! nat (sint (data_slot ?s 0)))"
    by (simp add: k1 b)
  with t12 obtain h1 r2 h2 where
        w1: "CudaTensorAccess_set [?s] (CudaTensor_access ?t) [1] 9 = Inr h1"
    and w2: "CudaTensorAccess_get h1 (CudaTensor_access ?t) [1] = Inr (cu_get_fn ?s (cu_set_fn ?s 9))"
    and w3: "CudaTensor_flip h1 ?t = Inr (r2, h2)"
    and w4: "cu_get (h2 ! ct_storage ?t) 1 (- 1) = Inr (cu_get_fn ?s (cu_set_fn ?s 9))"
    and w5: "CudaTensorAccess_data h2 (CudaTensor_access ?t)
               = CudaTensorAccess_data h' (CudaTensor_access ?t)"
    by (elim impE exE conjE)
  have 5: "CudaTensorAccess_data h2 (CudaTensor_access ?t) = Inr [1, 2]"
    using w5 2 by (rule trans)
  have w2': "CudaTensorAccess_get h1 (CudaTensor_access ?t) [1] = Inr 9"
    using w2 by (simp only: f)
  have w4': "cu_get (h2 ! 0) 1 (- 1) = Inr 9"
    using w4 by (simp only: f c)
  have t1': "CudaTensor_flip [?s] ?t = Inr (0, h')"
    using t1 r0 by simp
  from t1' 1 2 3 4 w1 w2' w3 w4' 5 show ?thesis
    by (intro exI [of _ h'] conjI exI [of _ h1] exI [of _ r2] exI [of _ h2])
qed

subsection \<open>The registry returns one tensor per name\<close>

lemma find_new:
  assumes "map_of R N = None"
  shows "Tensor_find D S m sd R h (Some N)
           = Inr (Some (length h), AList.update N (Some (length h)) R,
                  h @ [(Tensor_ctor D S (Some N))\<lparr>cls := GenTensor m sd\<rparr>])"
  using assms by (simp add: Tensor_find_def make_shared_def)

lemma find_registered:
  assumes "map_of R N = Some (Some p)" "deref h p = Inr obj"
  shows "Tensor_find D S m sd R h (Some N)
           = (if data_type obj = D \<and> dims obj = S then Inr (Some p, R, h) else Inl AssertFailed)"
  using assms by (simp add: Tensor_find_def)

text \<open>
  C5. For every registry \<open>R\<close> that does not hold the name \<open>N\<close> yet, every data type \<open>D\<close> and
  shape \<open>S\<close>: the first \<open>find\<close> makes a new generator tensor of type \<open>D\<close> and shape \<open>S\<close>,
  registers it under \<open>N\<close> and returns its pointer \<open>p\<close>; every later \<open>find\<close> under \<open>N\<close> whose
  requested type and shape are \<open>D\<close> and \<open>S\<close> returns the same pointer \<open>p\<close> and leaves the
  registry and the heap as they were, whatever mean and deviation it passes; and one whose
  type or shape differs fails its assertion and returns no tensor.
\<close>

theorem find_registry_identity:
  assumes first: "map_of R N = None"
  shows "\<exists>p R' h'. Tensor_find D S m sd R h (Some N) = Inr (Some p, R', h')
           \<and> map_of R' N = Some (Some p)
           \<and> deref h' p = Inr ((Tensor_ctor D S (Some N))\<lparr>cls := GenTensor m sd\<rparr>)
           \<and> (\<forall>D' S' m' sd'. Tensor_find D' S' m' sd' R' h' (Some N)
                  = (if D' = D \<and> S' = S then Inr (Some p, R', h') else Inl AssertFailed))"
proof -
  let ?p = "length h"
  let ?R' = "AList.update N (Some ?p) R"
  let ?obj = "(Tensor_ctor D S (Some N))\<lparr>cls := GenTensor m sd\<rparr>"
  let ?h' = "h @ [?obj]"
  have 1: "Tensor_find D S m sd R h (Some N) = Inr (Some ?p, ?R', ?h')"
    by (rule find_new [OF first])
  have 2: "map_of ?R' N = Some (Some ?p)"
    by (simp add: update_conv')
  have 3: "deref ?h' ?p = Inr ?obj"
    by (simp add: deref_def)
  have 4: "Tensor_find D' S' m' sd' ?R' ?h' (Some N)
             = (if D' = D \<and> S' = S then Inr (Some ?p, ?R', ?h') else Inl AssertFailed)"
    for D' S' m' sd'
    unfolding find_registered [OF 2 3] by (auto simp: Tensor_ctor_def)
  show ?thesis
    using 1 2 3 4 by blast
qed

theorem find_registry_identity_witness:
  "\<exists>p R' h'. Tensor_find FLOAT [8, 3, 5, 5] 0 1 [] [] (Some ''w'') = Inr (Some p, R', h')
       \<and> Tensor_find FLOAT [8, 3, 5, 5] 2 3 R' h' (Some ''w'') = Inr (Some p, R', h')
       \<and> Tensor_find FLOAT [8, 3, 3, 3] 0 1 R' h' (Some ''w'') = Inl AssertFailed
       \<and> Tensor_find HALF [8, 3, 5, 5] 0 1 R' h' (Some ''w'') = Inl AssertFailed"
proof -
  have "map_of ([] :: Tensors) ''w'' = None" by simp
  from find_registry_identity [OF this, of FLOAT "[8, 3, 5, 5]" 0 1 "[]"]
  obtain p R' h' where a: "Tensor_find FLOAT [8, 3, 5, 5] 0 1 [] [] (Some ''w'') = Inr (Some p, R', h')"
    and b: "\<forall>D' S' m' sd'. Tensor_find D' S' m' sd' R' h' (Some ''w'')
                  = (if D' = FLOAT \<and> S' = [8, 3, 5, 5] then Inr (Some p, R', h') else Inl AssertFailed)"
    by blast
  have "Tensor_find FLOAT [8, 3, 5, 5] 2 3 R' h' (Some ''w'') = Inr (Some p, R', h')"
    "Tensor_find FLOAT [8, 3, 3, 3] 0 1 R' h' (Some ''w'') = Inl AssertFailed"
    "Tensor_find HALF [8, 3, 5, 5] 0 1 R' h' (Some ''w'') = Inl AssertFailed"
    by (simp_all add: b)
  with a show ?thesis by blast
qed

subsection \<open>Reshape output shape\<close>

lemma CPU_get:
  assumes "sta < length sh" "unat (offsetForElement st off el) < length (data (sh ! sta))"
  shows "TensorAccess_get pf sh (CPUTensorAccess st sta off) el
           = Inr (get_fn (sh ! sta) (data (sh ! sta) ! unat (offsetForElement st off el)),
                  CPUTensorAccess st sta off)"
  using assms by (simp add: TensorAccess_get_def at_def TensorStorage_get_def)

lemma reshape_loop_cpu:
  assumes "sta < length sh"
      and "\<forall>j < k. unat (offsetForElement st off [of_nat (i + j)]) < length (data (sh ! sta))"
  shows "reshape_loop pf sh k (of_nat i) (Some (CPUTensorAccess st sta off)) ds
           = Inr (ds @ map (\<lambda>j. double_to_int64 pf
                    (get_fn (sh ! sta) (data (sh ! sta) ! unat (offsetForElement st off [of_nat j]))))
                  [i..<i + k])"
  using assms
proof (induction k arbitrary: i ds)
  case 0
  then show ?case by simp
next
  case (Suc k)
  let ?f = "\<lambda>j. double_to_int64 pf
                    (get_fn (sh ! sta) (data (sh ! sta) ! unat (offsetForElement st off [of_nat j])))"
  have here: "unat (offsetForElement st off [of_nat i]) < length (data (sh ! sta))"
    using Suc.prems(2) [rule_format, of 0] by simp
  have rest: "\<forall>j < k. unat (offsetForElement st off [of_nat (Suc i + j)]) < length (data (sh ! sta))"
    using Suc.prems(2) [rule_format, of "Suc j" for j] by simp
  have step: "reshape_loop pf sh k (of_nat i + 1) (Some (CPUTensorAccess st sta off)) ds'
           = Inr (ds' @ map ?f [Suc i..<Suc i + k])" for ds'
    using Suc.IH [OF Suc.prems(1) rest, of ds'] by (simp add: add.commute)
  have up: "map ?f [i..<i + Suc k] = ?f i # map ?f [Suc i..<Suc i + k]"
    by (simp add: upt_rec)
  show ?case
    unfolding reshape_loop.simps option.case CPU_get [OF Suc.prems(1) here] bindE_Inr prod.case
      step up
    by simp
qed

lemma reshape_loop_gen:
  "reshape_loop pf sh k i (Some (GenTensorAccess rk m sd g)) ds
     = Inr (ds @ map (double_to_int64 pf) (draws pf m sd g k))"
  by (induction k arbitrary: i g ds) (simp_all add: TensorAccess_get_def split_def Let_def)

lemma reshape_cpu:
  assumes x: "Tensors_get (inputs n) ''x'' = Some xa" "deref h xa = Inr X"
      and s: "Tensors_get (inputs n) ''shape'' = Some sa" "deref h sa = Inr Sh" "dims Sh = [r]"
      and c: "cls Sh = CPUTensor st sta off" "sta < length sh"
      and inb: "\<forall>j < nat (sint r). unat (offsetForElement st off [of_nat j]) < length (data (sh ! sta))"
  shows "\<exists>Y. makeReshapeOutputTensor pf h sh nm n = Inr (Some (length h), h @ [Y])
            \<and> data_type Y = data_type X
            \<and> length (dims Y) = nat (sint r)
            \<and> (\<forall>j < nat (sint r). \<exists>v. Tensor_get pf sh Sh [of_nat j] = Inr v
                    \<and> dims Y ! j = double_to_int64 pf v)"
proof -
  let ?f = "\<lambda>j. double_to_int64 pf
                    (get_fn (sh ! sta) (data (sh ! sta) ! unat (offsetForElement st off [of_nat j])))"
  let ?ds = "map ?f [0..<nat (sint r)]"
  let ?Y = "Tensor_ctor (data_type X) ?ds (Some nm)"
  have a: "access pf Sh = Some (CPUTensorAccess st sta off)"
    using c(1) by (simp add: access_def)
  have l: "reshape_loop pf sh (nat (sint r)) 0 (Some (CPUTensorAccess st sta off)) [] = Inr ?ds"
    using reshape_loop_cpu [OF c(2), of "nat (sint r)" st off 0 pf "[]"] inb by simp
  have 1: "makeReshapeOutputTensor pf h sh nm n = Inr (Some (length h), h @ [?Y])"
    using x s a l by (simp add: makeReshapeOutputTensor_def at_def make_shared_def)
  have 2: "\<exists>v. Tensor_get pf sh Sh [of_nat j] = Inr v \<and> dims ?Y ! j = double_to_int64 pf v"
    if "j < nat (sint r)" for j
    using that inb CPU_get [OF c(2), of st off "[of_nat j]" pf]
    by (simp add: Tensor_get_def a Tensor_ctor_def)
  have 3: "data_type ?Y = data_type X" "length (dims ?Y) = nat (sint r)"
    by (simp_all add: Tensor_ctor_def)
  show ?thesis
    using 1 2 3 by blast
qed

lemma reshape_gen:
  assumes x: "Tensors_get (inputs n) ''x'' = Some xa" "deref h xa = Inr X"
      and s: "Tensors_get (inputs n) ''shape'' = Some sa" "deref h sa = Inr Sh" "dims Sh = [r]"
      and c: "cls Sh = GenTensor m sd"
  shows "\<exists>Y. makeReshapeOutputTensor pf h sh nm n = Inr (Some (length h), h @ [Y])
            \<and> data_type Y = data_type X
            \<and> dims Y = map (double_to_int64 pf) (draws pf m sd (default_engine pf) (nat (sint r)))"
proof -
  have a: "access pf Sh = Some (GenTensorAccess 1 m sd (default_engine pf))"
    using c s(3) by (simp add: access_def)
  show ?thesis
    using x s a
    by (simp add: makeReshapeOutputTensor_def at_def make_shared_def reshape_loop_gen Tensor_ctor_def)
qed

lemma reshape_null:
  "Tensors_get (inputs n) ''x'' = None \<Longrightarrow> makeReshapeOutputTensor pf h sh nm n = Inr (None, h)"
  "Tensors_get (inputs n) ''shape'' = None \<Longrightarrow> makeReshapeOutputTensor pf h sh nm n = Inr (None, h)"
  "Tensors_get (inputs n) ''shape'' = Some sa \<Longrightarrow> deref h sa = Inr Sh \<Longrightarrow> length (dims Sh) \<noteq> 1
     \<Longrightarrow> makeReshapeOutputTensor pf h sh nm n = Inr (None, h)"
  by (simp_all add: makeReshapeOutputTensor_def split: option.splits)

text \<open>
  The shape that \<open>makeReshapeOutputTensor\<close> computes when the shape tensor has data behind
  it. For a Reshape node whose input \<open>x\<close> is present and whose input \<open>shape\<close> is a
  one-dimensional tensor of length \<open>r\<close>, the output tensor has the data type of \<open>x\<close> and as
  dimensions the \<open>r\<close> values read element by element, in order, from the shape tensor, each
  cast to \<open>int64_t\<close>: read from the storage when the shape tensor is a \<open>CPUTensor\<close> whose
  \<open>r\<close> elements lie in its buffer, drawn from the generator when it is a \<open>GenTensor\<close>.
  Nothing relates the product of these values to the element count of \<open>x\<close>. When \<open>x\<close> or
  \<open>shape\<close> is missing, or the shape tensor does not have exactly one dimension, the result
  is null and no tensor is made.
\<close>

lemma reshape_with_data:
  "(Tensors_get (inputs n) ''x'' = Some xa \<and> deref h xa = Inr X
      \<and> Tensors_get (inputs n) ''shape'' = Some sa \<and> deref h sa = Inr Sh \<and> dims Sh = [r]
      \<and> cls Sh = CPUTensor st sta off \<and> sta < length sh
      \<and> (\<forall>j < nat (sint r). unat (offsetForElement st off [of_nat j]) < length (data (sh ! sta)))
     \<longrightarrow> (\<exists>Y. makeReshapeOutputTensor pf h sh nm n = Inr (Some (length h), h @ [Y])
            \<and> data_type Y = data_type X
            \<and> length (dims Y) = nat (sint r)
            \<and> (\<forall>j < nat (sint r). \<exists>v. Tensor_get pf sh Sh [of_nat j] = Inr v
                    \<and> dims Y ! j = double_to_int64 pf v)))
   \<and> (Tensors_get (inputs n) ''x'' = Some xa \<and> deref h xa = Inr X
      \<and> Tensors_get (inputs n) ''shape'' = Some sa \<and> deref h sa = Inr Sh \<and> dims Sh = [r]
      \<and> cls Sh = GenTensor m sd
     \<longrightarrow> (\<exists>Y. makeReshapeOutputTensor pf h sh nm n = Inr (Some (length h), h @ [Y])
            \<and> data_type Y = data_type X
            \<and> dims Y = map (double_to_int64 pf) (draws pf m sd (default_engine pf) (nat (sint r)))))
   \<and> (Tensors_get (inputs n) ''x'' = None \<or> Tensors_get (inputs n) ''shape'' = None
     \<longrightarrow> makeReshapeOutputTensor pf h sh nm n = Inr (None, h))
   \<and> (Tensors_get (inputs n) ''shape'' = Some sa \<and> deref h sa = Inr Sh \<and> length (dims Sh) \<noteq> 1
     \<longrightarrow> makeReshapeOutputTensor pf h sh nm n = Inr (None, h))"
proof (intro conjI impI)
  assume "Tensors_get (inputs n) ''x'' = Some xa \<and> deref h xa = Inr X
      \<and> Tensors_get (inputs n) ''shape'' = Some sa \<and> deref h sa = Inr Sh \<and> dims Sh = [r]
      \<and> cls Sh = CPUTensor st sta off \<and> sta < length sh
      \<and> (\<forall>j < nat (sint r). unat (offsetForElement st off [of_nat j]) < length (data (sh ! sta)))"
  then show "\<exists>Y. makeReshapeOutputTensor pf h sh nm n = Inr (Some (length h), h @ [Y])
            \<and> data_type Y = data_type X
            \<and> length (dims Y) = nat (sint r)
            \<and> (\<forall>j < nat (sint r). \<exists>v. Tensor_get pf sh Sh [of_nat j] = Inr v
                    \<and> dims Y ! j = double_to_int64 pf v)"
    using reshape_cpu [where n = n and xa = xa and h = h and X = X and sa = sa and Sh = Sh
        and r = r and st = st and sta = sta and off = off and sh = sh and pf = pf and nm = nm]
    by blast
next
  assume "Tensors_get (inputs n) ''x'' = Some xa \<and> deref h xa = Inr X
      \<and> Tensors_get (inputs n) ''shape'' = Some sa \<and> deref h sa = Inr Sh \<and> dims Sh = [r]
      \<and> cls Sh = GenTensor m sd"
  then show "\<exists>Y. makeReshapeOutputTensor pf h sh nm n = Inr (Some (length h), h @ [Y])
            \<and> data_type Y = data_type X
            \<and> dims Y = map (double_to_int64 pf) (draws pf m sd (default_engine pf) (nat (sint r)))"
    using reshape_gen [where n = n and xa = xa and h = h and X = X and sa = sa and Sh = Sh
        and r = r and m = m and sd = sd and sh = sh and pf = pf and nm = nm]
    by blast
next
  assume "Tensors_get (inputs n) ''x'' = None \<or> Tensors_get (inputs n) ''shape'' = None"
  then show "makeReshapeOutputTensor pf h sh nm n = Inr (None, h)"
    using reshape_null(1,2) by blast
next
  assume "Tensors_get (inputs n) ''shape'' = Some sa \<and> deref h sa = Inr Sh \<and> length (dims Sh) \<noteq> 1"
  then show "makeReshapeOutputTensor pf h sh nm n = Inr (None, h)"
    using reshape_null(3) by blast
qed


lemma reshape_with_data_example:
  "\<exists>Y. makeReshapeOutputTensor test_platform reshape_heap_cpu [shape_storage] ''y'' reshape_node
          = Inr (Some 2, reshape_heap_cpu @ [Y])
       \<and> data_type Y = FLOAT \<and> dims Y = [4, 5]
       \<and> dims (reshape_heap_cpu ! 0) = [2, 3]"
proof -
  have i: "Tensors_get (inputs reshape_node) ''x'' = Some 0"
    "Tensors_get (inputs reshape_node) ''shape'' = Some 1"
    by (simp_all add: reshape_node_def Tensors_get_def)
  let ?X = "Tensor_ctor FLOAT [2, 3] (Some ''x'')"
  let ?S = "(Tensor_ctor INT64 [2] (Some ''shape''))\<lparr>cls := CPUTensor [1] 0 0\<rparr>"
  have d: "deref reshape_heap_cpu 0 = Inr ?X" "deref reshape_heap_cpu 1 = Inr ?S"
    by (simp_all add: reshape_heap_cpu_def deref_def)
  have s: "dims ?S = [2]" "cls ?S = CPUTensor [1] 0 0" "(0 :: nat) < length [shape_storage]"
    by (simp_all add: Tensor_ctor_def)
  have g: "Tensor_get test_platform [shape_storage] ?S [0] = Inr 4"
    "Tensor_get test_platform [shape_storage] ?S [1] = Inr 5"
    by (simp_all add: Tensor_get_def access_def TensorAccess_get_def at_def TensorStorage_get_def
        offsetForElement_def shape_storage_def test_platform_def datatype_get_def)
  have inb: "\<forall>j < nat (sint (2 :: int64)).
      unat (offsetForElement [1] 0 [of_nat j]) < length (data ([shape_storage] ! 0))"
    by (simp add: offsetForElement_def shape_storage_def less_2_cases_iff)
  from reshape_with_data [where n = reshape_node and h = reshape_heap_cpu and xa = 0 and X = ?X
      and sa = 1 and Sh = ?S and r = 2 and st = "[1]" and sta = 0 and off = 0
      and sh = "[shape_storage]" and pf = test_platform and nm = "''y''"]
  obtain Y where Y: "makeReshapeOutputTensor test_platform reshape_heap_cpu [shape_storage] ''y'' reshape_node
          = Inr (Some (length reshape_heap_cpu), reshape_heap_cpu @ [Y])"
      "data_type Y = data_type ?X" "length (dims Y) = nat (sint (2 :: int64))"
      "\<forall>j < nat (sint (2 :: int64)). \<exists>v. Tensor_get test_platform [shape_storage] ?S [of_nat j] = Inr v
                    \<and> dims Y ! j = double_to_int64 test_platform v"
    using i d s inb by blast
  have l: "length (dims Y) = 2" using Y(3) by simp
  have "dims Y ! 0 = 4" "dims Y ! 1 = 5"
    using Y(4) [rule_format, of 0] Y(4) [rule_format, of 1] g
    by (simp_all add: test_platform_def)
  with l have "dims Y = [4, 5]"
    by (cases "dims Y"; cases "tl (dims Y)") auto
  with Y(1,2) show ?thesis
    by (intro exI [of _ Y]) (simp add: reshape_heap_cpu_def Tensor_ctor_def)
qed

text \<open>
  C8 on a shape tensor without data. The node has the input \<open>x\<close> and a one-dimensional
  shape tensor of length 2 that is a plain \<open>Tensor\<close>, as the output of another node is. The
  claim has an output tensor with the two values read from the shape tensor. The code takes
  \<open>shape->access()\<close>, which is null for this tensor, does not test it, and the first
  \<open>ta->get\<close> goes through the null pointer: neither a tensor nor null is returned. The same
  function returns null for its other unusable inputs, and \<open>stats\<close>, \<open>print\<close>, \<open>toRGB\<close>,
  \<open>copyFrom\<close> and \<open>sse\<close> all test the result of \<open>access()\<close> for null.
\<close>

theorem reshape_null_access:
  "Tensors_get (inputs reshape_node) ''x'' = Some 0
   \<and> Tensors_get (inputs reshape_node) ''shape'' = Some 1
   \<and> dims (reshape_heap_plain ! 1) = [2]
   \<and> makeReshapeOutputTensor test_platform reshape_heap_plain [] ''y'' reshape_node = Inl NullDeref"
  by (simp add: makeReshapeOutputTensor_def reshape_node_def reshape_heap_plain_def Tensors_get_def
      deref_def at_def access_def Tensor_ctor_def numeral_2_eq_2)

subsection \<open>Saving a tensor and loading it back\<close>


lemma index_rev_bound:
  "list_all2 (\<lambda>x d. unat x < unat d) rc rd \<Longrightarrow> index_rev rc rd < prod_list (map unat rd)"
proof (induction rc rd rule: list_all2_induct)
  case Nil
  then show ?case by simp
next
  case (Cons c cs d ds)
  let ?p = "prod_list (map unat ds)"
  have "unat c + unat d * index_rev cs ds < unat d + unat d * index_rev cs ds"
    using Cons.hyps(1) by simp
  also have "\<dots> = unat d * Suc (index_rev cs ds)" by simp
  also have "\<dots> \<le> unat d * ?p"
    using Cons.IH by (intro mult_le_mono2) simp
  finally show ?case by simp
qed



lemma scast_nat:
  fixes x :: int32
  assumes "sint x = int s"
  shows "(scast x :: int64) = of_nat s"
  using assms by (metis of_int_of_nat_eq of_int_sint)

lemma narrow_nat: "(ucast (of_nat n :: int64) :: int32) = of_nat n"
  by (rule bit_word_eqI) (auto simp add: bit_simps)

lemma sint_int32_of_nat: "n < 2 ^ 31 \<Longrightarrow> sint (of_nat n :: int32) = int n"
  using sint_int32_of_int [of "int n"] by simp

lemma unat_int64_of_nat: "n < 2 ^ 64 \<Longrightarrow> unat (of_nat n :: int64) = n"
  by (simp add: unat_of_nat)

lemma length_strides_from_last [simp]: "length (strides_from_last \<sigma> rd) = length rd"
  by (induction rd arbitrary: \<sigma>) simp_all

lemma prod_pos: "\<forall>d \<in> set rd. 1 \<le> unat d \<Longrightarrow> 1 \<le> prod_list (map unat rd)"
  by (induction rd) (simp_all add: Suc_le_eq)

lemma stride_next:
  fixes \<sigma> :: int32 and d :: int64
  assumes "sint \<sigma> = int s" "s * unat d < 2 ^ 31"
  shows "sint (ucast ((scast \<sigma> :: int64) * d) :: int32) = int (s * unat d)"
proof -
  have "(scast \<sigma> :: int64) * d = of_nat s * of_nat (unat d)"
    using scast_nat [OF assms(1)] by simp
  also have "\<dots> = of_nat (s * unat d)" by simp
  finally have "(ucast ((scast \<sigma> :: int64) * d) :: int32) = of_nat (s * unat d)"
    by (simp only: narrow_nat)
  then show ?thesis
    using sint_int32_of_nat [OF assms(2)] by simp
qed

lemma bound_step:
  assumes "s * prod_list (map unat (d # ds)) < (2 :: nat) ^ 31" "\<forall>x \<in> set (d # ds). 1 \<le> unat x"
  shows "s * unat d < 2 ^ 31" "s * unat d * prod_list (map unat ds) < 2 ^ 31"
proof -
  let ?p = "prod_list (map unat ds)"
  have p1: "1 \<le> ?p" using assms(2) by (intro prod_pos) simp
  have le: "s * unat d \<le> s * unat d * ?p"
    using p1 by simp
  show a1: "s * unat d * ?p < 2 ^ 31" using assms(1) by (simp add: mult.assoc)
  from le a1 show "s * unat d < 2 ^ 31" by (rule le_less_trans)
qed

lemma weighted_strides:
  assumes "length rc = length rd" "sint \<sigma> = int s"
      and "s * prod_list (map unat rd) < 2 ^ 31" "\<forall>d \<in> set rd. 1 \<le> unat d"
  shows "sum_list (map (\<lambda>(e, s). e * s) (zip rc (strides_from_last \<sigma> rd)))
           = (of_nat (s * index_rev rc rd) :: int64)"
  using assms
proof (induction rc rd arbitrary: \<sigma> s rule: list_induct2)
  case Nil
  then show ?case by simp
next
  case (Cons c cs d ds)
  let ?\<sigma>' = "ucast ((scast \<sigma> :: int64) * d) :: int32"
  have b: "s * unat d < 2 ^ 31" "s * unat d * prod_list (map unat ds) < 2 ^ 31"
    by (rule bound_step [OF Cons.prems(2,3)])+
  have \<sigma>': "sint ?\<sigma>' = int (s * unat d)"
    by (rule stride_next [OF Cons.prems(1) b(1)])
  have ih: "sum_list (map (\<lambda>(e, s). e * s) (zip cs (strides_from_last ?\<sigma>' ds)))
           = (of_nat (s * unat d * index_rev cs ds) :: int64)"
    using Cons.IH [OF \<sigma>' b(2)] Cons.prems(3) by simp
  have c: "c * scast \<sigma> = (of_nat (s * unat c) :: int64)"
    using scast_nat [OF Cons.prems(1)] by simp
  have "sum_list (map (\<lambda>(e, s). e * s) (zip (c # cs) (strides_from_last \<sigma> (d # ds))))
          = c * scast \<sigma> + sum_list (map (\<lambda>(e, s). e * s) (zip cs (strides_from_last ?\<sigma>' ds)))"
    unfolding strides_from_last.simps zip_Cons_Cons list.map sum_list.Cons prod.case ..
  also have "\<dots> = of_nat (s * unat c) + of_nat (s * unat d * index_rev cs ds)"
    unfolding c ih ..
  also have "\<dots> = of_nat (s * index_rev (c # cs) (d # ds))"
    by (simp add: algebra_simps)
  finally show ?case .
qed


lemma count_rev: "prod_list (map unat (rev ds)) = count ds"
  by (simp add: count_def rev_map [symmetric])

lemma in_bounds_length: "in_bounds c ds \<Longrightarrow> length c = length ds"
  by (simp add: in_bounds_def list_all2_lengthD)

lemma index_of_bound: "in_bounds c ds \<Longrightarrow> index_of c ds < count ds"
  unfolding in_bounds_def index_of_def count_rev [symmetric]
  by (rule index_rev_bound) simp



lemma packed_offset:
  assumes "length c = length ds" "\<forall>d \<in> set ds. 1 \<le> unat d" "count ds < 2 ^ 31"
  shows "offsetForElement (computeCPUStrides ds) off c = off + of_nat (index_of c ds)"
proof -
  let ?S = "strides_from_last 1 (rev ds)"
  have l: "length (rev c) = length ?S" using assms(1) by simp
  have "zip c (rev ?S) = rev (zip (rev c) ?S)"
    using zip_rev [OF l] by simp
  then have "sum_list (map (\<lambda>(e, s). e * s) (zip c (rev ?S)))
               = sum_list (map (\<lambda>(e, s). e * s) (zip (rev c) ?S))"
    by (simp add: rev_map [symmetric])
  also have "\<dots> = of_nat (1 * index_rev (rev c) (rev ds))"
    by (rule weighted_strides) (use assms in \<open>simp_all add: count_rev\<close>)
  finally show ?thesis
    by (simp add: offsetForElement_sum computeCPUStrides_def index_of_def)
qed















text \<open>A storage that owns no mapping of the file written is left as it is.\<close>

lemma remap_length [simp]: "length (remap pf fs path sh) = length sh"
  by (simp add: remap_def)




lemma in_bounds_pos: "in_bounds c ds \<Longrightarrow> \<forall>d \<in> set ds. 1 \<le> unat d"
  unfolding in_bounds_def
  by (induction c ds rule: list_all2_induct) auto




text \<open>Every in-bounds coordinate of a packed tensor addresses an element of its buffer.\<close>

lemma packed_in_buffer:
  assumes "in_bounds c ds" "count ds < 2 ^ 31"
  shows "unat (offsetForElement (computeCPUStrides ds) 0 c) < count ds"
proof -
  have "offsetForElement (computeCPUStrides ds) 0 c = of_nat (index_of c ds)"
    using packed_offset [OF in_bounds_length [OF assms(1)] in_bounds_pos [OF assms(1)] assms(2), of 0]
    by simp
  moreover have "index_of c ds < count ds" by (rule index_of_bound [OF assms(1)])
  moreover from this have "unat (of_nat (index_of c ds) :: int64) = index_of c ds"
    using assms(2) by (intro unat_int64_of_nat) simp
  ultimately show ?thesis by simp
qed




text \<open>
  The dimensions are written as \<open>uint32_t\<close>: a tensor without elements whose first
  dimension is \<open>2^32\<close> is saved, and loaded with the dimensions \<open>[0, 0]\<close>.
\<close>

lemma save_load_dims_truncated:
  "makeCPUTensor test_platform [] FLOAT [4294967296, 0] None
     = Inr ((Tensor_ctor FLOAT [4294967296, 0] None)\<lparr>cls := CPUTensor [0, 1] 0 0\<rparr>,
            [\<lparr>get_fn = datatype_get test_platform FLOAT, set_fn = datatype_set test_platform FLOAT,
              st_data_type = FLOAT, element_size = 4, data = [], mmaped = False\<rparr>])
   \<and> Tensor_save test_platform \<lparr>files = [], mappings = []\<rparr>
        [\<lparr>get_fn = datatype_get test_platform FLOAT, set_fn = datatype_set test_platform FLOAT,
          st_data_type = FLOAT, element_size = 4, data = [], mmaped = False\<rparr>]
        ((Tensor_ctor FLOAT [4294967296, 0] None)\<lparr>cls := CPUTensor [0, 1] 0 0\<rparr>) ''p''
      = Inr (True,
             \<lparr>files = [(''p'', \<lparr>magic = ''sagaT001'', disk_type = 0, rank = 2, ondiskdims = [0, 0],
                                payload = []\<rparr>)],
               mappings = []\<rparr>,
             [\<lparr>get_fn = datatype_get test_platform FLOAT, set_fn = datatype_set test_platform FLOAT,
               st_data_type = FLOAT, element_size = 4, data = [], mmaped = False\<rparr>])
   \<and> fst (Tensor_load test_platform
             \<lparr>files = [(''p'', \<lparr>magic = ''sagaT001'', disk_type = 0, rank = 2, ondiskdims = [0, 0],
                                payload = []\<rparr>)],
               mappings = []\<rparr> [] ''p'' None)
      = Some ((Tensor_ctor FLOAT [0, 0] None)\<lparr>cls := CPUTensor [0, 1] 0 0\<rparr>)"
  by code_simp

text \<open>
  Saving a loaded tensor to the path it was loaded from. The file \<open>t\<close> holds the elements 5
  and 6 and is mapped by the storage of the loaded tensor. \<open>save\<close> empties the file and
  writes the header and the dimensions before it reads the tensor, whose two elements now
  lie past the end of the file in its first page and read as zero: the file written holds
  two zeros, and so does the storage afterwards.
\<close>

lemma save_over_own_mapping:
  "Tensor_load test_platform test_fs [] ''t'' None = (Some loaded_tensor, loaded_fs, [loaded_storage])
   \<and> Tensor_get test_platform [loaded_storage] loaded_tensor [1] = Inr 6
   \<and> Tensor_save test_platform loaded_fs [loaded_storage] loaded_tensor ''t''
       = Inr (True,
              loaded_fs\<lparr>files := [(''t'', test_file\<lparr>payload := [0, 0]\<rparr>)]\<rparr>,
              [loaded_storage\<lparr>data := [0, 0]\<rparr>])"
  by code_simp

subsection \<open>Generator access\<close>

text \<open>
  What the model says of a \<open>GenTensor\<close>: its access is never null; \<open>get\<close> returns the next
  sample and moves the generator on; \<open>set\<close> and \<open>copyBytesFrom\<close> leave every storage and the
  access object as they were. Which values the samples have lies in the standard library, not
  in this model.
\<close>

lemma gen_access_not_null:
  "cls t = GenTensor mean stddev \<Longrightarrow>
     access pf t = Some (GenTensorAccess (length (dims t)) mean stddev (default_engine pf))"
  by (simp add: access_def)

lemma gen_access_get:
  "TensorAccess_get pf sh (GenTensorAccess r mean stddev g) element
     = Inr (fst (normal_distribution pf mean stddev g),
            GenTensorAccess r mean stddev (snd (normal_distribution pf mean stddev g)))"
  by (simp add: TensorAccess_get_def split_def Let_def)

lemma gen_access_set:
  "TensorAccess_set sh (GenTensorAccess r mean stddev g) element v = Inr sh"
  "GenTensorAccess_copyBytesFrom sh (GenTensorAccess r mean stddev g) element bytes
     = (sh, GenTensorAccess r mean stddev g)"
  by (simp_all add: TensorAccess_set_def GenTensorAccess_copyBytesFrom_def)


end
